theory Spec2Isabelle
  imports Main "HOL-Library.Sublist"
begin

section \<open>Python strings\<close>

text \<open>
  A Python \<open>str\<close> is a sequence of Unicode code points, and the programs compare and
  search text that is not ASCII (the em dash U+2014, Czech letters). A string is therefore
  a list of code points; \<open>u\<close> reads an ASCII literal. \<open>needle in hay\<close> is
  \<^const>\<open>sublist\<close>, \<open>hay.startswith(p)\<close> is \<^const>\<open>prefix\<close>.
\<close>

type_synonym ustring = "nat list"

definition u :: "string \<Rightarrow> ustring" where
  "u s = map of_char s"

text \<open>The em dash, U+2014.\<close>

definition emdash :: ustring where
  "emdash = [8212]"

text \<open>
  \<open>str.isspace\<close> of one code point, which is also what \<open>str.strip()\<close> removes and
  what \<open>\s\<close> matches in a \<open>str\<close> pattern: the code points CPython lists as
  whitespace.
\<close>

definition isspace :: "nat \<Rightarrow> bool" where
  "isspace c \<longleftrightarrow>
     (9 \<le> c \<and> c \<le> 13) \<or> (28 \<le> c \<and> c \<le> 32) \<or> c = 133 \<or> c = 160 \<or> c = 5760 \<or>
     (8192 \<le> c \<and> c \<le> 8202) \<or> c = 8232 \<or> c = 8233 \<or> c = 8239 \<or> c = 8287 \<or> c = 12288"

definition strip :: "ustring \<Rightarrow> ustring" where
  "strip s = rev (dropWhile isspace (rev (dropWhile isspace s)))"

text \<open>\<open>s.removeprefix(p)\<close>: \<open>s[len(p):]\<close> when \<open>s\<close> starts with \<open>p\<close>, else \<open>s\<close>.\<close>

definition removeprefix :: "ustring \<Rightarrow> ustring \<Rightarrow> ustring" where
  "removeprefix p s = (if prefix p s then drop (length p) s else s)"

text \<open>
  \<open>s.split(sep, 1)\<close> for a non-empty \<open>sep\<close>: the text before the first occurrence of
  \<open>sep\<close> and the text after it, or \<open>None\<close> when \<open>sep\<close> does not occur.
\<close>

fun split_first :: "ustring \<Rightarrow> ustring \<Rightarrow> (ustring \<times> ustring) option" where
  "split_first sep [] = (if sep = [] then Some ([], []) else None)"
| "split_first sep (c # cs) =
     (if prefix sep (c # cs) then Some ([], drop (length sep) (c # cs))
      else (case split_first sep cs of
              None \<Rightarrow> None
            | Some (a, b) \<Rightarrow> Some (c # a, b)))"

text \<open>\<open>s.split(sep)[0]\<close>: the text before the first \<open>sep\<close>, all of \<open>s\<close> without one.\<close>

definition before_first :: "ustring \<Rightarrow> ustring \<Rightarrow> ustring" where
  "before_first sep s = (case split_first sep s of None \<Rightarrow> s | Some (a, b) \<Rightarrow> a)"

text \<open>\<open>s.split(sep)[-1]\<close>: the text after the last \<open>sep\<close>, all of \<open>s\<close> without one.\<close>

function after_last :: "ustring \<Rightarrow> ustring \<Rightarrow> ustring" where
  "after_last sep s =
     (if sep = [] then s
      else (case split_first sep s of None \<Rightarrow> s | Some (a, b) \<Rightarrow> after_last sep b))"
  by pat_completeness auto

lemma split_first_length:
  "split_first sep s = Some (a, b) \<Longrightarrow> sep \<noteq> [] \<Longrightarrow> length b < length s"
proof (induction s arbitrary: a b)
  case Nil
  then show ?case by simp
next
  case (Cons c cs)
  show ?case
  proof (cases "prefix sep (c # cs)")
    case True
    with Cons.prems show ?thesis by (cases sep) auto
  next
    case False
    with Cons.prems obtain a' where "split_first sep cs = Some (a', b)"
      by (auto split: option.splits)
    with Cons.IH Cons.prems(2) show ?thesis by fastforce
  qed
qed

termination after_last
  by (relation "measure (\<lambda>(sep, s). length s)") (auto dest: split_first_length)

text \<open>\<open>s.replace(old, new)\<close> for a non-empty \<open>old\<close>: every occurrence, left to right.\<close>

function replace :: "ustring \<Rightarrow> ustring \<Rightarrow> ustring \<Rightarrow> ustring" where
  "replace old new s =
     (if old = [] then s
      else (case split_first old s of
              None \<Rightarrow> s
            | Some (a, b) \<Rightarrow> a @ new @ replace old new b))"
  by pat_completeness auto

termination replace
  by (relation "measure (\<lambda>(old, new, s). length s)") (auto dest: split_first_length)

text \<open>\<open>sep.join(xs)\<close>.\<close>

fun join :: "ustring \<Rightarrow> ustring list \<Rightarrow> ustring" where
  "join sep [] = []"
| "join sep [x] = x"
| "join sep (x # y # ys) = x @ sep @ join sep (y # ys)"

text \<open>\<open>re.sub(r'\s+', ' ', s)\<close>: every run of whitespace becomes one space.\<close>

function collapse_ws :: "ustring \<Rightarrow> ustring" where
  "collapse_ws [] = []"
| "collapse_ws (c # cs) =
     (if isspace c then 32 # collapse_ws (dropWhile isspace cs) else c # collapse_ws cs)"
  by pat_completeness auto

termination collapse_ws
  by (relation "measure length") (auto simp: less_Suc_eq_le length_dropWhile_le)

text \<open>\<open>ForumXMLParser.clean_text\<close>.\<close>

definition clean_text :: "ustring \<Rightarrow> ustring" where
  "clean_text text = (if text = [] then [] else collapse_ws (strip text))"

section \<open>Exceptions and the Python runtime\<close>

text \<open>The exceptions the modelled code can meet.\<close>

datatype exn = AttributeError | IndexError | ValueError | RequestException | IllegalCharacterError

section \<open>The parse tree\<close>

text \<open>
  What \<open>BeautifulSoup(markup, parser)\<close> returns: a tree of tags and text. A tag has its
  name, the list of its classes (BeautifulSoup keeps the \<open>class\<close> attribute as a list,
  empty when the tag has none), its other attributes and its children. The document
  itself is a tag. The HTML parser is not part of the repository: the extraction
  functions are modelled from the tree on.
\<close>

datatype node = Text ustring | Tag ustring "ustring list" "(ustring \<times> ustring) list" "node list"

text \<open>The tags and strings below a node, in document order.\<close>

fun descendants :: "node \<Rightarrow> node list" where
  "descendants (Text s) = []"
| "descendants (Tag n cl a ch) = concat (map (\<lambda>c. c # descendants c) ch)"

text \<open>\<open>tag.get_text()\<close>: the strings below the tag, joined.\<close>

fun get_text :: "node \<Rightarrow> ustring" where
  "get_text (Text s) = s"
| "get_text (Tag n cl a ch) = concat (map get_text ch)"

fun strings :: "node \<Rightarrow> ustring list" where
  "strings (Text s) = [s]"
| "strings (Tag n cl a ch) = concat (map strings ch)"

text \<open>
  \<open>tag.get_text(strip=True)\<close>: each string stripped, the empty ones dropped, the rest
  joined.
\<close>

definition get_text_strip :: "node \<Rightarrow> ustring" where
  "get_text_strip n = concat (filter (\<lambda>s. s \<noteq> []) (map strip (strings n)))"

text \<open>\<open>tag.get(key)\<close>.\<close>

fun attr :: "ustring \<Rightarrow> node \<Rightarrow> ustring option" where
  "attr k (Text s) = None"
| "attr k (Tag n cl a ch) = map_of a k"

fun tag_named :: "ustring \<Rightarrow> node \<Rightarrow> bool" where
  "tag_named nm (Text s) = False"
| "tag_named nm (Tag n cl a ch) = (n = nm)"

text \<open>
  The filter \<open>class_=w\<close> (one string) or \<open>class_=[w1, w2]\<close>: a tag matches when one of
  its classes is one of the wanted strings, or its whole class list, joined by spaces, is.
\<close>

fun class_in :: "ustring list \<Rightarrow> node \<Rightarrow> bool" where
  "class_in wanted (Text s) = False"
| "class_in wanted (Tag n cl a ch) =
     list_ex (\<lambda>w. w \<in> set cl \<or> (cl \<noteq> [] \<and> join [32] cl = w)) wanted"

text \<open>\<open>root.find_all(...)\<close> and \<open>root.find(...)\<close> with the filter \<open>p\<close>.\<close>

definition find_all :: "(node \<Rightarrow> bool) \<Rightarrow> node \<Rightarrow> node list" where
  "find_all p root = filter p (descendants root)"

definition find_tag :: "(node \<Rightarrow> bool) \<Rightarrow> node \<Rightarrow> node option" where
  "find_tag p root = List.find p (descendants root)"

section \<open>The vote-table parser (parsing_pirate_votes.py)\<close>

record vote_record =
  v_title :: ustring
  v_name :: ustring
  v_vote :: nat

text \<open>The title: the heading's text before the first em dash, or \<open>"Unknown"\<close>.\<close>

definition vote_title :: "node \<Rightarrow> ustring" where
  "vote_title soup =
     (case find_tag (\<lambda>n. tag_named (u ''h3'') n \<and> class_in [u ''title''] n) soup of
        Some title_tag \<Rightarrow> strip (before_first emdash (get_text_strip title_tag))
      | None \<Rightarrow> u ''Unknown'')"

text \<open>\<open>vote = 0 if vote_raw in [em dash, "&mdash;", ""] else 1\<close>.\<close>

definition vote_of :: "ustring \<Rightarrow> nat" where
  "vote_of vote_raw = (if vote_raw \<in> set [emdash, u ''&mdash;'', []] then 0 else 1)"

text \<open>The loop over the rows: a row with fewer than two cells is passed over.\<close>

fun vote_rows :: "ustring \<Rightarrow> node list \<Rightarrow> vote_record list" where
  "vote_rows title [] = []"
| "vote_rows title (row # rows) =
     (let cols = find_all (tag_named (u ''td'')) row in
      if length cols < 2 then vote_rows title rows
      else \<lparr>v_title = title, v_name = get_text_strip (cols ! 0),
             v_vote = vote_of (get_text_strip (cols ! 1))\<rparr> # vote_rows title rows)"

text \<open>
  The body of the loop over the files, for one parsed file: the records handed to the
  data frame, or the exception that leaves the script. \<open>soup.find\<close> returns \<open>None\<close>
  when no table matches, and \<open>None.find_all\<close> raises \<open>AttributeError\<close>, which nothing
  catches.
\<close>

definition parse_votes :: "node \<Rightarrow> exn + vote_record list" where
  "parse_votes soup =
     (let title = vote_title soup in
      case find_tag (\<lambda>n. tag_named (u ''table'') n \<and> class_in [u ''pretty''] n) soup of
        None \<Rightarrow> Inl AttributeError
      | Some table \<Rightarrow> Inr (vote_rows title (drop 1 (find_all (tag_named (u ''tr'')) table))))"

section \<open>The standard library, as far as the programs use it\<close>

text \<open>
  The functions of Python's standard library and of the third-party packages that the
  programs call and that rest on tables or parsers outside the repository are parameters
  of the model:
  \<^item> \<open>isdecimal\<close>: the code points \<open>\d\<close> matches in a \<open>str\<close> pattern (the Unicode
    decimal digits);
  \<^item> \<open>py_int\<close>: \<open>int(s)\<close> for a string of decimal digits, which raises \<open>ValueError\<close>
    where the interpreter limits the number of digits;
  \<^item> \<open>str_lower\<close>: \<open>s.lower()\<close>;
  \<^item> \<open>tag_str\<close>: \<open>str(tag)\<close>, the markup of a tag;
  \<^item> \<open>iso_reformat\<close>: \<open>datetime.fromisoformat(s).strftime('%Y-%m-%d %H:%M:%S')\<close>;
  \<^item> \<open>search_date\<close>: the two groups of the first match of
    \<open>(\d{1,2}\s+\w+\s+\d{4}),?\s+(\d{1,2}:\d{2})\<close>;
  \<^item> \<open>urlparse\<close>: the path and the query of \<open>urllib.parse.urlparse(url)\<close>, or the
    exception it raises;
  \<^item> \<open>parse_qs\<close>: \<open>urllib.parse.parse_qs(query)\<close>, a dictionary from names to lists of
    values;
  \<^item> \<open>urljoin\<close>, \<open>path_join\<close> (\<open>os.path.join\<close>) and \<open>parse_html\<close>
    (\<open>BeautifulSoup(text, 'html.parser')\<close>).
\<close>

record url_parts =
  u_path :: ustring
  u_query :: ustring

record pylib =
  isdecimal :: "nat \<Rightarrow> bool"
  py_int :: "ustring \<Rightarrow> exn + int"
  str_lower :: "ustring \<Rightarrow> ustring"
  tag_str :: "node \<Rightarrow> ustring"
  iso_reformat :: "ustring \<Rightarrow> exn + ustring"
  search_date :: "ustring \<Rightarrow> (ustring \<times> ustring) option"
  urlparse :: "ustring \<Rightarrow> exn + url_parts"
  parse_qs :: "ustring \<Rightarrow> (ustring \<rightharpoonup> ustring list)"
  urljoin :: "ustring \<Rightarrow> ustring \<Rightarrow> ustring"
  path_join :: "ustring \<Rightarrow> ustring \<Rightarrow> ustring"
  parse_html :: "ustring \<Rightarrow> node"

text \<open>\<open>re.search(r'(\d+)', s)\<close>: the first run of digits.\<close>

definition search_digits :: "pylib \<Rightarrow> ustring \<Rightarrow> ustring option" where
  "search_digits lib s =
     (case dropWhile (\<lambda>c. \<not> isdecimal lib c) s of
        [] \<Rightarrow> None
      | ds \<Rightarrow> Some (takeWhile (isdecimal lib) ds))"

text \<open>\<open>re.search(r'celkem (\d+)', s)\<close>: the digits of the first match.\<close>

fun search_celkem :: "pylib \<Rightarrow> ustring \<Rightarrow> ustring option" where
  "search_celkem lib [] = None"
| "search_celkem lib (c # cs) =
     (let ds = takeWhile (isdecimal lib) (drop 7 (c # cs)) in
      if prefix (u ''celkem '') (c # cs) \<and> ds \<noteq> [] then Some ds
      else search_celkem lib cs)"

text \<open>\<open>re.search(r'datetime="([^"]+)"', s)\<close>: the group of the first match.\<close>

fun search_datetime_attr :: "ustring \<Rightarrow> ustring option" where
  "search_datetime_attr [] = None"
| "search_datetime_attr (c # cs) =
     (let rest = drop 10 (c # cs); v = takeWhile (\<lambda>x. x \<noteq> 34) rest in
      if prefix (u ''datetime='' @ [34]) (c # cs) \<and> v \<noteq> []
         \<and> prefix [34] (dropWhile (\<lambda>x. x \<noteq> 34) rest)
      then Some v
      else search_datetime_attr cs)"

section \<open>The forum parser (parsing_pirate_posts.py)\<close>

text \<open>
  A parsed post is a dictionary from column names to values; a value is a string or a
  number, and \<open>NaN\<close> is what the data frame holds where a row has no value.
\<close>

datatype cell = Str ustring | Num int | NaN

type_synonym pdict = "string \<rightharpoonup> cell"

text \<open>\<open>ForumXMLParser.parse_datetime\<close>.\<close>

definition parse_datetime :: "pylib \<Rightarrow> ustring \<Rightarrow> ustring" where
  "parse_datetime lib datetime_str =
     (if datetime_str = [] then []
      else
        (case (if sublist (u ''datetime='') datetime_str
               then (case search_datetime_attr datetime_str of
                       Some dt_str \<Rightarrow>
                         (case iso_reformat lib (replace (u ''Z'') (u ''+00:00'') dt_str) of
                            Inl e \<Rightarrow> Inl e
                          | Inr r \<Rightarrow> Inr (Some r))
                     | None \<Rightarrow> Inr None)
               else Inr None) of
           Inl e \<Rightarrow> datetime_str
         | Inr (Some r) \<Rightarrow> r
         | Inr None \<Rightarrow>
             (case search_date lib datetime_str of
                Some (d, t) \<Rightarrow> d @ u '' '' @ t
              | None \<Rightarrow> datetime_str)))"

text \<open>
  \<open>ForumXMLParser.extract_user_info\<close>, one definition per field. No operation of its
  body raises on a parse tree, so its \<open>except\<close> branch is not a branch of the model.
\<close>

definition registrovan :: ustring where
  "registrovan = u ''Registrov'' @ [225] @ u ''n:''"

definition bydliste :: ustring where
  "bydliste = u ''Bydli'' @ [353] @ u ''t'' @ [283] @ u '':''"

definition podekovali :: ustring where
  "podekovali = u ''pod'' @ [283] @ u ''kovali autorovi''"

definition info_username :: "node \<Rightarrow> pdict \<Rightarrow> pdict" where
  "info_username profile_div user_info =
     (case (case find_tag (\<lambda>n. tag_named (u ''a'') n \<and> class_in [u ''username-coloured''] n)
                   profile_div of
              Some l \<Rightarrow> Some l
            | None \<Rightarrow>
                find_tag (\<lambda>n. tag_named (u ''a'') n \<and> class_in [u ''username''] n) profile_div) of
        None \<Rightarrow> user_info
      | Some username_link \<Rightarrow>
          (let href = (case attr (u ''href'') username_link of Some h \<Rightarrow> h | None \<Rightarrow> []) in
           user_info(''username'' \<mapsto> Str (clean_text (get_text username_link)),
                     ''user_id'' \<mapsto> Str (if sublist (u ''u='') href
                                            then after_last (u ''u='') href else []))))"

definition info_rank :: "node \<Rightarrow> pdict \<Rightarrow> pdict" where
  "info_rank profile_div user_info =
     (case find_tag (\<lambda>n. tag_named (u ''dd'') n \<and> class_in [u ''profile-rank''] n) profile_div of
        None \<Rightarrow> user_info
      | Some rank_dd \<Rightarrow> user_info(''rank'' \<mapsto> Str (clean_text (get_text rank_dd))))"

definition info_post_count :: "node \<Rightarrow> pdict \<Rightarrow> pdict" where
  "info_post_count profile_div user_info =
     (case find_tag (\<lambda>n. tag_named (u ''dd'') n \<and> class_in [u ''profile-posts''] n) profile_div of
        None \<Rightarrow> user_info
      | Some posts_dd \<Rightarrow>
          (case find_tag (tag_named (u ''a'')) posts_dd of
             None \<Rightarrow> user_info
           | Some posts_link \<Rightarrow>
               user_info(''post_count'' \<mapsto> Str (clean_text (get_text posts_link)))))"

text \<open>
  The three fields behind a label (registration date, profession, location): present
  only when the label is in the text, which is then removed.
\<close>

definition info_labelled ::
  "string \<Rightarrow> ustring \<Rightarrow> ustring \<Rightarrow> node \<Rightarrow> pdict \<Rightarrow> pdict" where
  "info_labelled key cls label profile_div user_info =
     (case find_tag (\<lambda>n. tag_named (u ''dd'') n \<and> class_in [cls] n) profile_div of
        None \<Rightarrow> user_info
      | Some dd \<Rightarrow>
          (let text = get_text dd in
           if sublist label text
           then user_info(key \<mapsto> Str (clean_text (strip (replace label [] text))))
           else user_info))"

text \<open>The two thanks counters: the first run of digits in the counter's link.\<close>

definition info_thanks :: "pylib \<Rightarrow> string \<Rightarrow> ustring \<Rightarrow> node \<Rightarrow> pdict \<Rightarrow> pdict" where
  "info_thanks lib key data_attr profile_div user_info =
     (case find_tag (\<lambda>n. tag_named (u ''dd'') n \<and> attr data_attr n \<noteq> None) profile_div of
        None \<Rightarrow> user_info
      | Some thanks_dd \<Rightarrow>
          (case find_tag (tag_named (u ''a'')) thanks_dd of
             None \<Rightarrow> user_info
           | Some thanks_link \<Rightarrow>
               user_info(key \<mapsto> Str (case search_digits lib (get_text thanks_link) of
                                       Some ds \<Rightarrow> ds
                                     | None \<Rightarrow> []))))"

definition extract_user_info :: "pylib \<Rightarrow> node \<Rightarrow> pdict" where
  "extract_user_info lib post_div =
     (case find_tag (\<lambda>n. tag_named (u ''dl'') n \<and> class_in [u ''postprofile''] n) post_div of
        None \<Rightarrow> Map.empty
      | Some profile_div \<Rightarrow>
          info_thanks lib ''thanks_received'' (u ''data-user-receive-id'') profile_div
            (info_thanks lib ''thanks_given'' (u ''data-user-give-id'') profile_div
              (info_labelled ''location''
                 (u ''profile-custom-field profile-phpbb_location'') bydliste profile_div
                (info_labelled ''profession''
                   (u ''profile-custom-field profile-profese'') (u ''Profese:'') profile_div
                  (info_labelled ''registration_date'' (u ''profile-joined'') registrovan
                     profile_div
                    (info_post_count profile_div
                      (info_rank profile_div
                        (info_username profile_div Map.empty))))))))"

text \<open>
  \<open>ForumXMLParser.extract_post_content\<close>. The post identifier:
  \<open>post_div.get('id', '').replace('p', '') if post_div.get('id') else ''\<close>.
\<close>

definition post_id_of :: "node \<Rightarrow> ustring" where
  "post_id_of post_div =
     (case attr (u ''id'') post_div of
        None \<Rightarrow> []
      | Some i \<Rightarrow> if i = [] then [] else replace (u ''p'') [] i)"

text \<open>The link of the first heading of the post body.\<close>

definition title_link :: "node \<Rightarrow> node option" where
  "title_link postbody_div =
     (case find_tag (tag_named (u ''h3'')) postbody_div of
        None \<Rightarrow> None
      | Some title_h3 \<Rightarrow> find_tag (tag_named (u ''a'')) title_h3)"

definition post_set_title :: "node \<Rightarrow> pdict \<Rightarrow> pdict" where
  "post_set_title postbody_div post_data =
     (case title_link postbody_div of
        None \<Rightarrow> post_data
      | Some l \<Rightarrow>
          (let raw_title = clean_text (get_text l) in
           post_data(''title'' \<mapsto> Str (removeprefix (u ''Re: '') raw_title))))"

definition post_set_datetime :: "pylib \<Rightarrow> node \<Rightarrow> pdict \<Rightarrow> pdict" where
  "post_set_datetime lib postbody_div post_data =
     (case find_tag (\<lambda>n. tag_named (u ''p'') n \<and> class_in [u ''author''] n) postbody_div of
        None \<Rightarrow> post_data
      | Some author_p \<Rightarrow>
          (case find_tag (tag_named (u ''time'')) author_p of
             None \<Rightarrow> post_data
           | Some time_elem \<Rightarrow>
               post_data(''datetime'' \<mapsto> Str (parse_datetime lib (tag_str lib time_elem)))))"

definition post_set_content :: "node \<Rightarrow> pdict \<Rightarrow> pdict" where
  "post_set_content postbody_div post_data =
     (case find_tag (\<lambda>n. tag_named (u ''div'') n \<and> class_in [u ''content''] n) postbody_div of
        None \<Rightarrow> post_data
      | Some content_div \<Rightarrow> post_data(''content'' \<mapsto> Str (clean_text (get_text content_div))))"

text \<open>
  The "thanked by" line: the first \<open>dt\<close> of the first \<open>dl\<close> of the post body, when its
  text holds the marker.
\<close>

definition thanks_line :: "node \<Rightarrow> (node \<times> node) option" where
  "thanks_line postbody_div =
     (case find_tag (tag_named (u ''dl'')) postbody_div of
        None \<Rightarrow> None
      | Some thanks_dl \<Rightarrow>
          (case find_tag (tag_named (u ''dt'')) thanks_dl of
             None \<Rightarrow> None
           | Some dt_elem \<Rightarrow>
               if sublist podekovali (get_text dt_elem) then Some (thanks_dl, dt_elem)
               else None))"

text \<open>The names listed in the line.\<close>

definition thanks_names :: "node \<Rightarrow> ustring list" where
  "thanks_names dd_elem =
     map (\<lambda>link. clean_text (get_text link))
       (find_all (\<lambda>n. tag_named (u ''a'') n \<and> class_in [u ''username-coloured'', u ''username''] n)
          dd_elem)"

text \<open>
  The block under \<open># Thanks list\<close>, up to the two defaults: \<open>int(...)\<close> is the one call
  of the function's body that can raise, and the exception leaves the dictionary as it
  was.
\<close>

definition post_set_thanks :: "pylib \<Rightarrow> node \<Rightarrow> pdict \<Rightarrow> exn + pdict" where
  "post_set_thanks lib postbody_div post_data =
     (case thanks_line postbody_div of
        None \<Rightarrow> Inr post_data
      | Some (thanks_dl, dt_elem) \<Rightarrow>
          (case (case search_celkem lib (get_text dt_elem) of
                   None \<Rightarrow> Inr post_data
                 | Some ds \<Rightarrow>
                     (case py_int lib ds of
                        Inl e \<Rightarrow> Inl e
                      | Inr n \<Rightarrow> Inr (post_data(''thanks_count'' \<mapsto> Num n)))) of
             Inl e \<Rightarrow> Inl e
           | Inr post_data1 \<Rightarrow>
               (case find_tag (tag_named (u ''dd'')) thanks_dl of
                  None \<Rightarrow> Inr post_data1
                | Some dd_elem \<Rightarrow>
                    (let thanks_users = thanks_names dd_elem;
                         post_data2 = post_data1(''thanks_users'' \<mapsto> Str (join (u '', '') thanks_users))
                     in Inr (if post_data2 ''thanks_count'' = None
                             then post_data2(''thanks_count'' \<mapsto> Num (int (length thanks_users)))
                             else post_data2)))))"

definition post_thanks_defaults :: "pdict \<Rightarrow> pdict" where
  "post_thanks_defaults post_data =
     (let post_data1 = (if post_data ''thanks_users'' = None
                        then post_data(''thanks_users'' \<mapsto> Str []) else post_data)
      in if post_data1 ''thanks_count'' = None
         then post_data1(''thanks_count'' \<mapsto> Num 0) else post_data1)"

text \<open>
  The whole function: every step after the post identifier, the two defaults included,
  is inside \<open>if postbody_div:\<close>, and an exception returns the dictionary built so far.
\<close>

definition postbody_of :: "node \<Rightarrow> node option" where
  "postbody_of post_div =
     find_tag (\<lambda>n. tag_named (u ''div'') n \<and> class_in [u ''postbody''] n) post_div"

definition extract_post_content :: "pylib \<Rightarrow> node \<Rightarrow> pdict" where
  "extract_post_content lib post_div =
     (let post_data = [''post_id'' \<mapsto> Str (post_id_of post_div)] in
      case postbody_of post_div of
        None \<Rightarrow> post_data
      | Some postbody_div \<Rightarrow>
          (let post_data1 =
                 post_set_content postbody_div
                   (post_set_datetime lib postbody_div (post_set_title postbody_div post_data))
           in case post_set_thanks lib postbody_div post_data1 of
                Inl e \<Rightarrow> post_data1
              | Inr post_data2 \<Rightarrow> post_thanks_defaults post_data2))"

text \<open>
  \<open>ForumXMLParser.parse_forum_xml\<close>, from the parsed markup on. The two extraction
  functions catch their own exceptions and building the dictionary cannot raise, so the
  \<open>except\<close> branch of the loop is not a branch of the model: every post container gives
  one record.
\<close>

definition post_record :: "pylib \<Rightarrow> ustring \<Rightarrow> node \<Rightarrow> pdict" where
  "post_record lib forum_id post_div =
     [''forum_id'' \<mapsto> Str forum_id] ++ extract_user_info lib post_div
       ++ extract_post_content lib post_div"

definition post_divs :: "node \<Rightarrow> node list" where
  "post_divs soup = find_all (\<lambda>n. tag_named (u ''div'') n \<and> class_in [u ''post''] n) soup"

definition parse_forum_xml :: "pylib \<Rightarrow> node \<Rightarrow> ustring \<Rightarrow> pdict list" where
  "parse_forum_xml lib soup forum_id = map (post_record lib forum_id) (post_divs soup)"

text \<open>
  \<open>ForumXMLParser.create_xlsx_from_posts\<close>: the data rows written to the sheet (under
  the header row), \<open>None\<close> when the function returns without writing, or the exception
  that leaves it. \<open>pd.DataFrame(posts_data)\<close> has the keys of all the rows as columns
  and \<open>NaN\<close> where a row lacks a key; a column no row has is added with \<open>''\<close>;
  \<open>df[columns]\<close> orders the columns. \<open>to_excel\<close> refuses a frame of more than
  1048576 rows with \<open>ValueError\<close> and writes \<open>NaN\<close> as its \<open>na_rep\<close>, the empty
  string. The engine, openpyxl, cuts a string at 32767 characters and then raises
  \<open>IllegalCharacterError\<close> when it holds a control character other than tab, line
  feed and carriage return. What is left on disk after an exception is not modelled.
\<close>

definition columns :: "string list" where
  "columns =
     [''forum_id'', ''post_id'', ''title'', ''username'', ''user_id'', ''rank'', ''post_count'',
      ''registration_date'', ''profession'', ''location'', ''thanks_given'',
      ''thanks_received'', ''datetime'', ''content'',
      ''thanks_users'', ''thanks_count'']"

definition df_cell :: "pdict list \<Rightarrow> pdict \<Rightarrow> string \<Rightarrow> cell" where
  "df_cell posts_data row col =
     (case row col of
        Some v \<Rightarrow> v
      | None \<Rightarrow> if list_ex (\<lambda>r. r col \<noteq> None) posts_data then NaN else Str [])"

fun to_excel_cell :: "cell \<Rightarrow> cell" where
  "to_excel_cell NaN = Str []"
| "to_excel_cell v = v"

text \<open>openpyxl's \<open>ILLEGAL_CHARACTERS_RE\<close>: \<open>[\000-\010]|[\013-\014]|[\016-\037]\<close>.\<close>

definition illegal_character :: "nat \<Rightarrow> bool" where
  "illegal_character c \<longleftrightarrow> c \<le> 8 \<or> c = 11 \<or> c = 12 \<or> (14 \<le> c \<and> c \<le> 31)"

text \<open>
  The two steps of openpyxl's check of a cell value: the string is cut, and the cut
  string is refused when it holds an illegal character.
\<close>

fun cut_cell :: "cell \<Rightarrow> cell" where
  "cut_cell (Str s) = Str (take 32767 s)"
| "cut_cell v = v"

fun bad_cell :: "cell \<Rightarrow> bool" where
  "bad_cell (Str s) = list_ex illegal_character (take 32767 s)"
| "bad_cell v = False"

definition create_xlsx_from_posts :: "pdict list \<Rightarrow> exn + cell list list option" where
  "create_xlsx_from_posts posts_data =
     (if posts_data = [] then Inr None
      else if 1048576 < length posts_data then Inl ValueError
      else
        (let cells = map (\<lambda>row. map (\<lambda>col. to_excel_cell (df_cell posts_data row col)) columns)
                       posts_data
         in if list_ex (list_ex bad_cell) cells then Inl IllegalCharacterError
            else Inr (Some (map (map cut_cell) cells))))"

section \<open>The network, the clock and the files\<close>

text \<open>
  The programs talk to a server through one \<open>requests.Session\<close>. The server is any
  function from the requests sent so far (the newest last) to the answer to the newest:
  a response, or \<open>None\<close> when \<open>requests\<close> raises (\<open>RequestException\<close>). The cookies
  of the session are part of what the server has seen. The clock gives
  \<open>time.strftime('%Y-%m-%d %H:%M:%S')\<close> after these requests. \<open>time.sleep\<close> is not
  modelled, and writing a file always succeeds.
\<close>

datatype request = GET ustring | POST ustring "(ustring \<times> ustring) list"

record response =
  r_status_code :: int
  r_text :: ustring
  r_url :: ustring

record world =
  w_server :: "request list \<Rightarrow> response option"
  w_clock :: "request list \<Rightarrow> ustring"

text \<open>\<open>response.raise_for_status()\<close> raises for the statuses 400 to 599.\<close>

definition raises_for_status :: "response \<Rightarrow> bool" where
  "raises_for_status r \<longleftrightarrow> 400 \<le> r_status_code r \<and> r_status_code r < 600"

text \<open>\<open>str(x)\<close> for a string or \<open>None\<close>, as an f-string formats it.\<close>

fun py_str :: "ustring option \<Rightarrow> ustring" where
  "py_str None = u ''None''"
| "py_str (Some s) = s"

text \<open>\<open>xs[0]\<close>.\<close>

fun first :: "'a list \<Rightarrow> exn + 'a" where
  "first [] = Inl IndexError"
| "first (x # xs) = Inr x"

text \<open>\<open>d[k] = v\<close> on a dictionary kept as a list of pairs, in insertion order.\<close>

fun dict_set :: "'k \<Rightarrow> 'v \<Rightarrow> ('k \<times> 'v) list \<Rightarrow> ('k \<times> 'v) list" where
  "dict_set k v [] = [(k, v)]"
| "dict_set k v ((k', v') # d) = (if k' = k then (k, v) # d else (k', v') # dict_set k v d)"

section \<open>The forum scraper (main_scraping.py)\<close>

record page_data =
  pd_id :: "ustring option"
  pd_start :: "ustring option"
  pd_url :: ustring
  pd_raw_html :: ustring
  pd_scraped_at :: ustring
  pd_status_code :: int
  pd_content_length :: nat

text \<open>The marker phrases of \<open>login\<close>.\<close>

definition registration_required_en :: ustring where
  "registration_required_en = u ''requires you to be registered and logged in''"

definition registration_required_cs :: ustring where
  "registration_required_cs =
     u ''po'' @ [382] @ u ''aduje, abyste byli registrov'' @ [225] @ u ''ni a p'' @ [345]
       @ u ''ihl'' @ [225, 353] @ u ''eni''"

definition logout_en :: ustring where
  "logout_en = u ''Logout''"

definition logout_cs :: ustring where
  "logout_cs = u ''Odhl'' @ [225] @ u ''sit se''"

definition login_url :: ustring where
  "login_url = u ''https://forum.pirati.cz/ucp.php?mode=login&redirect=index.php''"

definition test_url :: ustring where
  "test_url = u ''https://forum.pirati.cz/viewtopic.php?t=47593''"

definition main_url :: ustring where
  "main_url = u ''https://forum.pirati.cz/index.php''"

text \<open>
  The hidden fields of the login form: \<open>hidden_fields[name] = value\<close> for every hidden
  input with a name.
\<close>

fun hidden_fields :: "node list \<Rightarrow> (ustring \<times> ustring) list \<Rightarrow> (ustring \<times> ustring) list" where
  "hidden_fields [] d = d"
| "hidden_fields (input_tag # rest) d =
     (case attr (u ''name'') input_tag of
        None \<Rightarrow> hidden_fields rest d
      | Some name \<Rightarrow>
          if name = [] then hidden_fields rest d
          else hidden_fields rest
                 (dict_set name (case attr (u ''value'') input_tag of Some v \<Rightarrow> v | None \<Rightarrow> []) d))"

definition login_data ::
  "ustring \<Rightarrow> ustring \<Rightarrow> node \<Rightarrow> (ustring \<times> ustring) list" where
  "login_data username password login_form =
     fold (\<lambda>(k, v). dict_set k v)
       (hidden_fields
          (find_all (\<lambda>n. tag_named (u ''input'') n \<and> attr (u ''type'') n = Some (u ''hidden''))
             login_form) [])
       [(u ''username'', username), (u ''password'', password)]"

text \<open>
  The end of \<open>login\<close>, from \<open># Test actual access to protected content\<close> on. The two
  requests are outside every \<open>try\<close>: a transport failure leaves \<open>login\<close> as an
  exception.
\<close>

definition login_verify :: "world \<Rightarrow> request list \<Rightarrow> (exn + bool) \<times> request list" where
  "login_verify w hist =
     (let hist1 = hist @ [GET test_url] in
      case w_server w hist1 of
        None \<Rightarrow> (Inl RequestException, hist1)
      | Some test_response \<Rightarrow>
          if sublist registration_required_en (r_text test_response)
             \<or> sublist registration_required_cs (r_text test_response)
          then (Inr False, hist1)
          else if sublist logout_en (r_text test_response)
                  \<or> sublist logout_cs (r_text test_response)
          then (Inr True, hist1)
          else
            (let hist2 = hist1 @ [GET main_url] in
             case w_server w hist2 of
               None \<Rightarrow> (Inl RequestException, hist2)
             | Some main_response \<Rightarrow>
                 if sublist logout_en (r_text main_response)
                    \<or> sublist logout_cs (r_text main_response)
                 then (Inr True, hist2)
                 else (Inr False, hist2)))"

text \<open>\<open>PirateForumScraper.login\<close>: the result and the requests sent.\<close>

definition login ::
  "pylib \<Rightarrow> world \<Rightarrow> request list \<Rightarrow> ustring \<Rightarrow> ustring \<Rightarrow> (exn + bool) \<times> request list" where
  "login lib w hist username password =
     (let hist1 = hist @ [GET login_url] in
      case w_server w hist1 of
        None \<Rightarrow> (Inr False, hist1)
      | Some response \<Rightarrow>
          if raises_for_status response then (Inr False, hist1)
          else
            (case find_tag (\<lambda>n. tag_named (u ''form'') n \<and> attr (u ''id'') n = Some (u ''kc-form-login''))
                    (parse_html lib (r_text response)) of
               None \<Rightarrow> (Inr False, hist1)
             | Some login_form \<Rightarrow>
                 (let action_url =
                        urljoin lib (r_url response)
                          (case attr (u ''action'') login_form of Some a \<Rightarrow> a | None \<Rightarrow> []);
                      hist2 = hist1 @ [POST action_url (login_data username password login_form)]
                  in case w_server w hist2 of
                       None \<Rightarrow> (Inr False, hist2)
                     | Some response2 \<Rightarrow>
                         if raises_for_status response2 then (Inr False, hist2)
                         else login_verify w hist2)))"

text \<open>
  \<open>PirateForumScraper.read_links_from_file\<close>, from the lines of the file on (\<open>None\<close>
  when the file does not exist or cannot be read).
\<close>

definition read_links_from_file :: "ustring list option \<Rightarrow> ustring list" where
  "read_links_from_file file =
     (case file of
        None \<Rightarrow> []
      | Some lines \<Rightarrow>
          filter (\<lambda>line. sublist (u ''forum.pirati.cz'') line \<and> sublist (u ''viewtopic.php'') line)
            (filter (\<lambda>line. line \<noteq> [] \<and> \<not> prefix (u ''#'') line) (map strip lines)))"

text \<open>\<open>PirateForumScraper.extract_topic_info_from_url\<close>.\<close>

definition extract_topic_info_from_url ::
  "pylib \<Rightarrow> ustring \<Rightarrow> ustring option \<times> ustring option" where
  "extract_topic_info_from_url lib url =
     (case urlparse lib url of
        Inl e \<Rightarrow> (None, None)
      | Inr parsed_url \<Rightarrow>
          (let query_params = parse_qs lib (u_query parsed_url) in
           case (case query_params (u ''t'') of
                   None \<Rightarrow> Inr None
                 | Some vs \<Rightarrow> (case first vs of Inl e \<Rightarrow> Inl e | Inr v \<Rightarrow> Inr (Some v))) of
             Inl e \<Rightarrow> (None, None)
           | Inr topic_id \<Rightarrow>
               (case (case query_params (u ''start'') of
                        None \<Rightarrow> Inr (u ''0'')
                      | Some vs \<Rightarrow> first vs) of
                  Inl e \<Rightarrow> (None, None)
                | Inr start_value \<Rightarrow> (topic_id, Some start_value))))"

definition error_indicators :: "ustring list" where
  "error_indicators =
     [u ''this topic does not exist'',
      u ''toto t'' @ [233] @ u ''ma neexistuje'',
      u ''topic not found'',
      u ''t'' @ [233] @ u ''ma nenalezeno'',
      u ''page not found'',
      u ''str'' @ [225] @ u ''nka nenalezena'']"

text \<open>\<open>PirateForumScraper.scrape_url\<close>: the page or \<open>None\<close>, and the requests sent.\<close>

definition scrape_url ::
  "pylib \<Rightarrow> world \<Rightarrow> request list \<Rightarrow> ustring \<Rightarrow> page_data option \<times> request list" where
  "scrape_url lib w hist url =
     (let hist1 = hist @ [GET url] in
      case w_server w hist1 of
        None \<Rightarrow> (None, hist1)
      | Some response \<Rightarrow>
          if r_status_code response \<noteq> 200 then (None, hist1)
          else if length (strip (r_text response)) < 100 then (None, hist1)
          else if list_ex (\<lambda>indicator. sublist indicator (str_lower lib (r_text response)))
                    error_indicators
          then (None, hist1)
          else
            (let (topic_id, start_value) = extract_topic_info_from_url lib url in
             (Some \<lparr>pd_id = topic_id, pd_start = start_value, pd_url = url,
                     pd_raw_html = r_text response, pd_scraped_at = w_clock w hist1,
                     pd_status_code = r_status_code response,
                     pd_content_length = length (r_text response)\<rparr>, hist1)))"

text \<open>\<open>PirateForumScraper.save_page_as_html\<close>: the path and the text written.\<close>

definition save_page_as_html :: "pylib \<Rightarrow> page_data \<Rightarrow> ustring \<Rightarrow> ustring \<times> ustring" where
  "save_page_as_html lib page_data output_dir =
     (let filename = u ''topic_'' @ py_str (pd_id page_data) @ u ''-''
                       @ py_str (pd_start page_data) @ u ''.xml''
      in (path_join lib output_dir filename, pd_raw_html page_data))"

text \<open>
  The state of \<open>run\<close>: the requests sent, the files written and \<open>scraped_files\<close>.
\<close>

record run_state =
  rs_requests :: "request list"
  rs_files :: "(ustring \<times> ustring) list"
  rs_scraped :: "(ustring \<times> page_data) list"

text \<open>The loop of \<open>run\<close> over the URLs.\<close>

fun scrape_all :: "pylib \<Rightarrow> world \<Rightarrow> ustring \<Rightarrow> ustring list \<Rightarrow> run_state \<Rightarrow> run_state" where
  "scrape_all lib w output_dir [] st = st"
| "scrape_all lib w output_dir (url # urls) st =
     (case scrape_url lib w (rs_requests st) url of
        (None, hist) \<Rightarrow> scrape_all lib w output_dir urls (st\<lparr>rs_requests := hist\<rparr>)
      | (Some page, hist) \<Rightarrow>
          (let (filepath, text) = save_page_as_html lib page output_dir in
           scrape_all lib w output_dir urls
             \<lparr>rs_requests = hist, rs_files = rs_files st @ [(filepath, text)],
              rs_scraped = rs_scraped st @ [(filepath, page)]\<rparr>))"

text \<open>
  \<open>PirateForumScraper.run\<close>, up to the summary file: the result of \<open>login\<close> only
  chooses a message; an exception of \<open>login\<close> leaves \<open>run\<close>.
\<close>

definition run ::
  "pylib \<Rightarrow> world \<Rightarrow> ustring list option \<Rightarrow> ustring \<Rightarrow> ustring \<Rightarrow> exn + run_state" where
  "run lib w links_file username password =
     (case login lib w [] username password of
        (Inl e, hist) \<Rightarrow> Inl e
      | (Inr logged_in, hist) \<Rightarrow>
          (let urls = read_links_from_file links_file;
               st = \<lparr>rs_requests = hist, rs_files = [], rs_scraped = []\<rparr>
           in if urls = [] then Inr st
              else Inr (scrape_all lib w (u ''data'') urls st)))"

section \<open>The election-roll scraper (HeliosScraper in parsing_pirate_votes.py)\<close>

text \<open>\<open>s.split(sep)\<close> for a non-empty \<open>sep\<close>.\<close>

function split_all :: "ustring \<Rightarrow> ustring \<Rightarrow> ustring list" where
  "split_all sep s =
     (if sep = [] then [s]
      else (case split_first sep s of
              None \<Rightarrow> [s]
            | Some (a, b) \<Rightarrow> a # split_all sep b))"
  by pat_completeness auto

termination split_all
  by (relation "measure (\<lambda>(sep, s). length s)") (auto dest: split_first_length)

text \<open>\<open>str(n)\<close> for a natural number.\<close>

function str_of_nat :: "nat \<Rightarrow> ustring" where
  "str_of_nat n = (if n < 10 then [48 + n] else str_of_nat (n div 10) @ [48 + n mod 10])"
  by pat_completeness auto

termination str_of_nat
  by (relation "measure id") auto

record election_page =
  ep_election_id :: ustring
  ep_page :: ustring
  ep_url :: ustring
  ep_raw_html :: ustring
  ep_scraped_at :: ustring
  ep_status_code :: int
  ep_content_length :: nat

text \<open>\<open>HeliosScraper.extract_election_info_from_url\<close>.\<close>

definition extract_election_info_from_url ::
  "pylib \<Rightarrow> ustring \<Rightarrow> ustring option \<times> ustring option" where
  "extract_election_info_from_url lib url =
     (case urlparse lib url of
        Inl e \<Rightarrow> (None, None)
      | Inr parsed \<Rightarrow>
          (let parts = split_all (u ''/'') (u_path parsed) in
           if length parts \<le> 3 then (None, None)
           else
             (let election_id = parts ! 3;
                  query = parse_qs lib (u_query parsed)
              in case first (case query (u ''page'') of Some vs \<Rightarrow> vs | None \<Rightarrow> [u ''1'']) of
                   Inl e \<Rightarrow> (None, None)
                 | Inr page \<Rightarrow> (Some election_id, Some page))))"

text \<open>
  \<open>HeliosScraper.scrape_url\<close>: no request is sent for a URL without an election
  identifier.
\<close>

definition helios_scrape_url ::
  "pylib \<Rightarrow> world \<Rightarrow> request list \<Rightarrow> ustring \<Rightarrow> election_page option \<times> request list" where
  "helios_scrape_url lib w hist url =
     (case extract_election_info_from_url lib url of
        (None, page) \<Rightarrow> (None, hist)
      | (Some election_id, page) \<Rightarrow>
          if election_id = [] then (None, hist)
          else
            (let hist1 = hist @ [GET url] in
             case w_server w hist1 of
               None \<Rightarrow> (None, hist1)
             | Some r \<Rightarrow>
                 if r_status_code r \<noteq> 200 then (None, hist1)
                 else (Some \<lparr>ep_election_id = election_id, ep_page = py_str page, ep_url = url,
                              ep_raw_html = r_text r, ep_scraped_at = w_clock w hist1,
                              ep_status_code = r_status_code r,
                              ep_content_length = length (r_text r)\<rparr>, hist1)))"

text \<open>\<open>re.sub(r"page=\d+", repl, s)\<close>.\<close>

function sub_page :: "pylib \<Rightarrow> ustring \<Rightarrow> ustring \<Rightarrow> ustring" where
  "sub_page lib repl [] = []"
| "sub_page lib repl (c # cs) =
     (let rest = drop 5 (c # cs) in
      if prefix (u ''page='') (c # cs) \<and> takeWhile (isdecimal lib) rest \<noteq> []
      then repl @ sub_page lib repl (dropWhile (isdecimal lib) rest)
      else c # sub_page lib repl cs)"
  by pat_completeness auto

termination sub_page
proof (relation "measure (\<lambda>(lib, repl, s). length s)")
  show "wf (measure (\<lambda>(lib, repl, s). length s))" by simp
next
  fix lib :: pylib and repl :: ustring and c :: nat and cs x :: ustring
  assume "x = drop 5 (c # cs)"
  have "length (dropWhile (isdecimal lib) (drop 5 (c # cs))) \<le> length (drop 5 (c # cs))"
    by (rule length_dropWhile_le)
  then show "((lib, repl, dropWhile (isdecimal lib) x), lib, repl, c # cs)
             \<in> measure (\<lambda>(lib, repl, s). length s)"
    using \<open>x = drop 5 (c # cs)\<close> by simp
next
  fix lib :: pylib and repl :: ustring and c :: nat and cs x :: ustring
  show "((lib, repl, cs), lib, repl, c # cs) \<in> measure (\<lambda>(lib, repl, s). length s)"
    by simp
qed

text \<open>The URL of page \<open>page_num\<close>: \<open>page=\<close> rewritten or appended.\<close>

definition page_url :: "pylib \<Rightarrow> ustring \<Rightarrow> nat \<Rightarrow> ustring" where
  "page_url lib base_url page_num =
     (if sublist (u ''page='') base_url
      then sub_page lib (u ''page='' @ str_of_nat page_num) base_url
      else (let join_char = (if sublist (u ''?'') base_url then u ''&'' else u ''?'')
            in base_url @ join_char @ u ''page='' @ str_of_nat page_num))"

text \<open>\<open>HeliosScraper.save_page_as_xml\<close>: the path and the text written.\<close>

definition save_page_as_xml :: "pylib \<Rightarrow> election_page \<Rightarrow> ustring \<Rightarrow> ustring \<times> ustring" where
  "save_page_as_xml lib page output_dir =
     (let filename = u ''election_'' @ ep_election_id page @ u ''_page_'' @ ep_page page
                       @ u ''.xml''
      in (path_join lib output_dir filename, ep_raw_html page))"

record helios_state =
  hs_requests :: "request list"
  hs_calls :: "ustring list"
  hs_files :: "(ustring \<times> ustring) list"
  hs_scraped :: "(ustring \<times> election_page) list"

text \<open>
  The inner loop of \<open>HeliosScraper.run\<close>, \<open>for page_num in range(1, 26)\<close>, over the
  page numbers still to come; \<open>hs_calls\<close> lists the URLs handed to \<open>scrape_url\<close>.
\<close>

fun helios_pages ::
  "pylib \<Rightarrow> world \<Rightarrow> ustring \<Rightarrow> ustring \<Rightarrow> nat list \<Rightarrow> helios_state \<Rightarrow> helios_state" where
  "helios_pages lib w output_dir base_url [] st = st"
| "helios_pages lib w output_dir base_url (page_num # rest) st =
     (let url = page_url lib base_url page_num;
          st1 = st\<lparr>hs_calls := hs_calls st @ [url]\<rparr>
      in case helios_scrape_url lib w (hs_requests st) url of
           (None, hist) \<Rightarrow> st1\<lparr>hs_requests := hist\<rparr>
         | (Some data, hist) \<Rightarrow>
             if ep_content_length data < 500 then st1\<lparr>hs_requests := hist\<rparr>
             else
               (let (filepath, text) = save_page_as_xml lib data output_dir in
                helios_pages lib w output_dir base_url rest
                  (st1\<lparr>hs_requests := hist, hs_files := hs_files st @ [(filepath, text)],
                        hs_scraped := hs_scraped st @ [(filepath, data)]\<rparr>)))"

text \<open>The outer loop over the base URLs, and \<open>HeliosScraper.run\<close> up to the summary.\<close>

fun helios_all ::
  "pylib \<Rightarrow> world \<Rightarrow> ustring \<Rightarrow> ustring list \<Rightarrow> helios_state \<Rightarrow> helios_state" where
  "helios_all lib w output_dir [] st = st"
| "helios_all lib w output_dir (base_url # urls) st =
     helios_all lib w output_dir urls
       (helios_pages lib w output_dir base_url [1..<26] st)"

definition helios_read_links :: "ustring list option \<Rightarrow> ustring list" where
  "helios_read_links file =
     (case file of
        None \<Rightarrow> []
      | Some lines \<Rightarrow> filter (\<lambda>line. line \<noteq> [] \<and> \<not> prefix (u ''#'') line) (map strip lines))"

definition helios_run :: "pylib \<Rightarrow> world \<Rightarrow> ustring list option \<Rightarrow> helios_state" where
  "helios_run lib w links_file =
     helios_all lib w (u ''data HELIOS'') (helios_read_links links_file)
       \<lparr>hs_requests = [], hs_calls = [], hs_files = [], hs_scraped = []\<rparr>"

section \<open>A library for ASCII inputs\<close>

text \<open>
  To run the model on concrete inputs the library parameters need values. On ASCII
  text the following agree with Python: the decimal digits are \<open>0\<close> to \<open>9\<close>, \<open>int\<close>
  reads them in base ten, \<open>lower\<close> maps \<open>A\<close> to \<open>Z\<close> to \<open>a\<close> to \<open>z\<close>. \<open>ascii_urlparse\<close>
  and \<open>ascii_parse_qs\<close> are \<open>urlparse\<close> and \<open>parse_qs\<close> on URLs of the shape
  \<open>scheme://host/path?query#fragment\<close> without \<open>;\<close>, \<open>%\<close>, \<open>+\<close> or brackets, which is
  all the examples use; \<open>ascii_urljoin\<close> is \<open>urljoin\<close> for an absolute second URL and
  \<open>ascii_path_join\<close> is \<open>os.path.join\<close> of a directory and a file name on POSIX. The
  examples hold no \<open>time\<close> tag and parse no markup, so the three datetime functions and
  \<open>parse_html\<close> are constant.
\<close>

definition ascii_digit :: "nat \<Rightarrow> bool" where
  "ascii_digit c \<longleftrightarrow> 48 \<le> c \<and> c \<le> 57"

definition ascii_int :: "ustring \<Rightarrow> exn + int" where
  "ascii_int ds =
     (if ds \<noteq> [] \<and> list_all ascii_digit ds
      then Inr (int (fold (\<lambda>c n. 10 * n + (c - 48)) ds 0))
      else Inl ValueError)"

definition ascii_lower :: "ustring \<Rightarrow> ustring" where
  "ascii_lower s = map (\<lambda>c. if 65 \<le> c \<and> c \<le> 90 then c + 32 else c) s"

definition ascii_urlparse :: "ustring \<Rightarrow> exn + url_parts" where
  "ascii_urlparse url =
     (let no_fragment = before_first (u ''#'') url;
          (p, q) = (case split_first (u ''?'') no_fragment of
                      None \<Rightarrow> (no_fragment, [])
                    | Some (a, b) \<Rightarrow> (a, b));
          path = (case split_first (u ''://'') p of
                    None \<Rightarrow> p
                  | Some (scheme, rest) \<Rightarrow> dropWhile (\<lambda>c. c \<noteq> 47) rest)
      in Inr \<lparr>u_path = path, u_query = q\<rparr>)"

fun qs_pairs :: "ustring list \<Rightarrow> (ustring \<times> ustring list) list \<Rightarrow> (ustring \<times> ustring list) list" where
  "qs_pairs [] d = d"
| "qs_pairs (field # rest) d =
     (case split_first (u ''='') field of
        None \<Rightarrow> qs_pairs rest d
      | Some (name, value) \<Rightarrow>
          if value = [] then qs_pairs rest d
          else qs_pairs rest
                 (dict_set name ((case map_of d name of Some vs \<Rightarrow> vs | None \<Rightarrow> []) @ [value]) d))"

definition ascii_parse_qs :: "ustring \<Rightarrow> (ustring \<rightharpoonup> ustring list)" where
  "ascii_parse_qs query = map_of (qs_pairs (split_all (u ''&'') query) [])"

definition ascii_lib :: pylib where
  "ascii_lib =
     \<lparr>isdecimal = ascii_digit, py_int = ascii_int, str_lower = ascii_lower,
      tag_str = (\<lambda>n. []), iso_reformat = (\<lambda>s. Inl ValueError), search_date = (\<lambda>s. None),
      urlparse = ascii_urlparse, parse_qs = ascii_parse_qs,
      urljoin = (\<lambda>base url. if url = [] then base else url),
      path_join = (\<lambda>dir file. dir @ u ''/'' @ file),
      parse_html = (\<lambda>s. Tag (u ''[document]'') [] [] [])\<rparr>"

section \<open>Concrete inputs\<close>

text \<open>
  Parse trees on which the model is run: a vote page with five rows, a vote page without
  a table, and post containers with and without a "thanked by" line, with and without a
  post body.
\<close>

definition votes_page :: node where
  "votes_page =
     Tag (u ''[document]'') [] []
       [Tag (u ''h3'') [u ''title''] [] [Text (u ''Volba A '' @ emdash @ u '' hlasy'')],
        Tag (u ''table'') [u ''pretty''] []
          [Tag (u ''tr'') [] [] [Tag (u ''th'') [] [] [Text (u ''Name'')]],
           Tag (u ''tr'') [] [] [Tag (u ''td'') [] [] [Text (u ''Jan'')],
                                 Tag (u ''td'') [] [] [Text (u ''&mdash;'')]],
           Tag (u ''tr'') [] [] [Tag (u ''td'') [] [] [Text (u ''Eva'')],
                                 Tag (u ''td'') [] [] [Text (u '' Ano '')]],
           Tag (u ''tr'') [] [] [Tag (u ''td'') [] [] [Text (u ''only one cell'')]],
           Tag (u ''tr'') [] [] [Tag (u ''td'') [] [] [Text (u ''Petr'')],
                                 Tag (u ''td'') [] [] [Text emdash]]]]"

definition no_table_page :: node where
  "no_table_page =
     Tag (u ''[document]'') [] []
       [Tag (u ''h3'') [u ''title''] [] [Text (u ''Volba B'')],
        Tag (u ''p'') [] [] [Text (u ''No voters yet.'')]]"

definition thanks_dt_a :: node where
  "thanks_dt_a = Tag (u ''dt'') [] [] [Text (podekovali @ u '' (celkem 5):'')]"

definition thanks_dl_a :: node where
  "thanks_dl_a =
     Tag (u ''dl'') [] []
       [thanks_dt_a,
        Tag (u ''dd'') [] []
          [Tag (u ''a'') [u ''username''] [] [Text (u ''Eva'')], Text (u '', ''),
           Tag (u ''a'') [u ''username-coloured''] [] [Text (u ''Jan'')]]]"

definition postbody_a :: node where
  "postbody_a =
     Tag (u ''div'') [u ''postbody''] []
       [Tag (u ''h3'') [] [] [Tag (u ''a'') [] [] [Text (u '' Re: Re:  X '')]],
        Tag (u ''div'') [u ''content''] [] [Text (u ''Hello  there'')],
        thanks_dl_a]"

definition post_a :: node where
  "post_a = Tag (u ''div'') [u ''post'', u ''bg1''] [(u ''id'', u ''p101'')] [postbody_a]"

definition thanks_dt_b :: node where
  "thanks_dt_b = Tag (u ''dt'') [] [] [Text (podekovali @ u '':'')]"

definition thanks_dl_b :: node where
  "thanks_dl_b =
     Tag (u ''dl'') [] []
       [thanks_dt_b,
        Tag (u ''dd'') [] []
          [Tag (u ''a'') [u ''username''] [] [Text (u ''Eva'')],
           Tag (u ''a'') [u ''username''] [] [Text (u ''Petr'')]]]"

definition postbody_b :: node where
  "postbody_b = Tag (u ''div'') [u ''postbody''] [] [thanks_dl_b]"

definition post_b :: node where
  "post_b = Tag (u ''div'') [u ''post''] [(u ''id'', u ''p102'')] [postbody_b]"

definition postbody_c :: node where
  "postbody_c =
     Tag (u ''div'') [u ''postbody''] []
       [Tag (u ''div'') [u ''content''] [] [Text (u ''No thanks here'')]]"

definition post_c :: node where
  "post_c = Tag (u ''div'') [u ''post''] [(u ''id'', u ''p103'')] [postbody_c]"

definition postbody_attach :: node where
  "postbody_attach =
     Tag (u ''div'') [u ''postbody''] []
       [Tag (u ''div'') [u ''content''] [] [Text (u ''See the file.'')],
        Tag (u ''dl'') [u ''attachbox''] []
          [Tag (u ''dt'') [] [] [Text (u ''Attachments'')],
           Tag (u ''dd'') [] [] [Text (u ''minutes.pdf'')]],
        Tag (u ''dl'') [] []
          [Tag (u ''dt'') [] [] [Text (podekovali @ u '' (celkem 5):'')],
           Tag (u ''dd'') [] [] [Tag (u ''a'') [u ''username''] [] [Text (u ''Eva'')]]]]"

definition post_attach :: node where
  "post_attach = Tag (u ''div'') [u ''post''] [(u ''id'', u ''p105'')] [postbody_attach]"

definition post_bell :: node where
  "post_bell =
     Tag (u ''div'') [u ''post''] [(u ''id'', u ''p104'')]
       [Tag (u ''div'') [u ''postbody''] []
          [Tag (u ''div'') [u ''content''] [] [Text (u ''bell '' @ [7])]]]"

definition post_bare :: node where
  "post_bare = Tag (u ''div'') [u ''post''] [(u ''id'', u ''p1'')] []"

definition bare_page :: node where
  "bare_page = Tag (u ''[document]'') [] [] [post_bare]"

text \<open>
  Page texts, servers and a login form for the two scrapers.
\<close>

definition notice_text :: ustring where
  "notice_text =
     u ''The board requires you to be registered and logged in to view this forum. ''
     @ u ''Please log in with your account or register a new one to continue reading.''"

definition plain_text :: ustring where
  "plain_text =
     u ''<html><head><title>Forum</title></head><body><div class=post>A post that is long ''
     @ u ''enough to pass the length check of the scraper, nothing more.</div></body></html>''"

definition missing_text :: ustring where
  "missing_text =
     u ''<html><head><title>Forum</title></head><body><p>Sorry: TOPIC NOT FOUND. The topic ''
     @ u ''you asked for was moved or deleted by a moderator.</p></body></html>''"

text \<open>
  A forum that refuses the login page and answers every other request with the same
  text.
\<close>

definition forum_world :: "ustring \<Rightarrow> world" where
  "forum_world text =
     \<lparr>w_server = (\<lambda>hist. case last hist of
                         GET url \<Rightarrow> if url = login_url then None
                                    else Some \<lparr>r_status_code = 200, r_text = text, r_url = url\<rparr>
                       | POST url data \<Rightarrow> None),
      w_clock = (\<lambda>hist. u ''2025-01-01 12:00:00'')\<rparr>"

definition bare_topic_url :: ustring where
  "bare_topic_url = u ''https://forum.pirati.cz/viewtopic.php?f=5''"

definition login_page :: node where
  "login_page =
     Tag (u ''[document]'') [] []
       [Tag (u ''form'') [] [(u ''id'', u ''kc-form-login''),
                             (u ''action'', u ''https://auth.pirati.cz/authenticate?session=abc'')]
          [Tag (u ''input'') [] [(u ''type'', u ''text''), (u ''name'', u ''username'')] [],
           Tag (u ''input'') [] [(u ''type'', u ''hidden''), (u ''name'', u ''credentialId''),
                                 (u ''value'', u ''x1'')] []]]"

definition login_lib :: pylib where
  "login_lib = ascii_lib\<lparr>parse_html := (\<lambda>s. login_page)\<rparr>"

text \<open>
  A forum that serves the login form, accepts the credentials and answers the protected
  topic and the main page with the given texts.
\<close>

definition login_world :: "ustring \<Rightarrow> ustring \<Rightarrow> world" where
  "login_world test_text main_text =
     \<lparr>w_server = (\<lambda>hist. case last hist of
                         GET url \<Rightarrow>
                           Some \<lparr>r_status_code = 200,
                                 r_text = (if url = test_url then test_text
                                           else if url = main_url then main_text else []),
                                 r_url = url\<rparr>
                       | POST url data \<Rightarrow> Some \<lparr>r_status_code = 200, r_text = [], r_url = url\<rparr>),
      w_clock = (\<lambda>hist. u ''2025-01-01 12:00:00'')\<rparr>"

text \<open>
  A forum that serves the login form and accepts the credentials, and whose connection
  fails on the request for the protected topic.
\<close>

definition down_world :: world where
  "down_world =
     \<lparr>w_server = (\<lambda>hist. case last hist of
                         GET url \<Rightarrow> if url = test_url then None
                                    else Some \<lparr>r_status_code = 200, r_text = [], r_url = url\<rparr>
                       | POST url data \<Rightarrow> Some \<lparr>r_status_code = 200, r_text = [], r_url = url\<rparr>),
      w_clock = (\<lambda>hist. u ''2025-01-01 12:00:00'')\<rparr>"

definition login_post :: request where
  "login_post =
     POST (u ''https://auth.pirati.cz/authenticate?session=abc'')
       [(u ''username'', u ''user''), (u ''password'', u ''secret''), (u ''credentialId'', u ''x1'')]"

definition denied_text :: ustring where
  "denied_text = u ''The board requires you to be registered and logged in to view this forum.''"

definition member_text :: ustring where
  "member_text = u ''Welcome back, user. [ Logout ]''"

definition member_text_cs :: ustring where
  "member_text_cs = u ''V'' @ [237] @ u ''tejte. [ '' @ logout_cs @ u '' ]''"

definition neutral_text :: ustring where
  "neutral_text = u ''A page without any marker.''"

definition election_url :: ustring where
  "election_url = u ''https://helios.pirati.cz/helios/elections/abc/voters/list''"

text \<open>
  A server whose four first answers have the lengths 2000, 1800, 1900 and 50, and that
  fails afterwards.
\<close>

definition paging_world :: world where
  "paging_world =
     \<lparr>w_server = (\<lambda>hist. if 1 \<le> length hist \<and> length hist \<le> 4
                         then Some \<lparr>r_status_code = 200,
                                    r_text = replicate ([2000, 1800, 1900, 50] ! (length hist - 1)) 120,
                                    r_url = []\<rparr>
                         else None),
      w_clock = (\<lambda>hist. u ''2025-01-01 12:00:00'')\<rparr>"

text \<open>A server that answers every request with 2000 characters.\<close>

definition long_world :: world where
  "long_world =
     \<lparr>w_server = (\<lambda>hist. Some \<lparr>r_status_code = 200, r_text = replicate 2000 120, r_url = []\<rparr>),
      w_clock = (\<lambda>hist. u ''2025-01-01 12:00:00'')\<rparr>"

definition helios_start :: helios_state where
  "helios_start = \<lparr>hs_requests = [], hs_calls = [], hs_files = [], hs_scraped = []\<rparr>"

section \<open>Evaluating the model\<close>

text \<open>The definitions a concrete input is evaluated with.\<close>

lemmas string_defs = u_def emdash_def strip_def isspace_def clean_text_def removeprefix_def
  before_first_def get_text_strip_def podekovali_def registrovan_def bydliste_def

lemmas tree_defs = find_tag_def find_all_def postbody_of_def title_link_def thanks_line_def
  thanks_names_def post_divs_def

lemmas post_defs = extract_post_content_def extract_user_info_def post_record_def
  parse_forum_xml_def post_id_of_def post_set_title_def post_set_datetime_def
  post_set_content_def post_set_thanks_def post_thanks_defaults_def
  create_xlsx_from_posts_def df_cell_def columns_def map_add_def Let_def

lemmas fixture_defs = votes_page_def no_table_page_def post_a_def postbody_a_def
  thanks_dl_a_def thanks_dt_a_def post_b_def postbody_b_def thanks_dl_b_def thanks_dt_b_def
  post_c_def postbody_c_def post_bare_def bare_page_def post_attach_def postbody_attach_def

lemmas lib_defs = ascii_lib_def ascii_digit_def ascii_int_def ascii_lower_def

lemmas scrape_defs = scrape_url_def extract_topic_info_from_url_def error_indicators_def
  save_page_as_html_def read_links_from_file_def login_def login_verify_def run_def
  registration_required_en_def registration_required_cs_def logout_en_def logout_cs_def
  login_url_def test_url_def main_url_def raises_for_status_def
  ascii_urlparse_def ascii_parse_qs_def

lemmas login_defs = login_world_def login_lib_def login_page_def login_post_def login_data_def
  forum_world_def

lemmas helios_defs = helios_scrape_url_def extract_election_info_from_url_def page_url_def
  save_page_as_xml_def helios_start_def paging_world_def election_url_def
  helios_run_def helios_read_links_def long_world_def
  ascii_urlparse_def ascii_parse_qs_def


section \<open>Properties of the vote-table parser\<close>

lemma vote_rows_map:
  "vote_rows title rows =
     map (\<lambda>row. \<lparr>v_title = title,
                 v_name = get_text_strip (find_all (tag_named (u ''td'')) row ! 0),
                 v_vote = vote_of (get_text_strip (find_all (tag_named (u ''td'')) row ! 1))\<rparr>)
       (filter (\<lambda>row. 2 \<le> length (find_all (tag_named (u ''td'')) row)) rows)"
  by (induction rows) (simp_all add: Let_def not_less)

lemma votes_page_records:
  "parse_votes votes_page =
     Inr [\<lparr>v_title = u ''Volba A'', v_name = u ''Jan'', v_vote = 0\<rparr>,
          \<lparr>v_title = u ''Volba A'', v_name = u ''Eva'', v_vote = 1\<rparr>,
          \<lparr>v_title = u ''Volba A'', v_name = u ''Petr'', v_vote = 0\<rparr>]"
  by (simp add: parse_votes_def votes_page_def vote_title_def find_tag_def find_all_def
      get_text_strip_def strip_def isspace_def before_first_def vote_of_def u_def emdash_def
      Let_def)

text \<open>
  C1 (as amended). The records of a vote page are those of the rows with at least two
  cells, in order, each with the stripped text of the first cell as name and the vote of
  the stripped text of the second. The vote is 0 exactly when that text is the em dash,
  the seven characters \<open>&mdash;\<close> or empty, and 1 otherwise.
\<close>

theorem vote_normalization:
  "vote_rows title rows =
     map (\<lambda>row. \<lparr>v_title = title,
                 v_name = get_text_strip (find_all (tag_named (u ''td'')) row ! 0),
                 v_vote = vote_of (get_text_strip (find_all (tag_named (u ''td'')) row ! 1))\<rparr>)
       (filter (\<lambda>row. 2 \<le> length (find_all (tag_named (u ''td'')) row)) rows)
   \<and> (vote_of raw = 0 \<longleftrightarrow> raw = emdash \<or> raw = u ''&mdash;'' \<or> raw = [])
   \<and> (vote_of raw = 1 \<longleftrightarrow> raw \<noteq> emdash \<and> raw \<noteq> u ''&mdash;'' \<and> raw \<noteq> [])"
  by (auto simp: vote_rows_map vote_of_def)

theorem vote_normalization_witness:
  "vote_of (u ''Ano'') = 1 \<and> vote_of emdash = 0 \<and> vote_of [] = 0
   \<and> vote_rows (u ''T'') [Tag (u ''tr'') [] [] [Tag (u ''td'') [] [] [Text (u ''lonely'')]]] = []"
proof -
  have a: "u ''Ano'' \<noteq> emdash \<and> u ''Ano'' \<noteq> u ''&mdash;'' \<and> u ''Ano'' \<noteq> []"
    by (simp add: u_def emdash_def)
  have b: "find_all (tag_named (u ''td''))
             (Tag (u ''tr'') [] [] [Tag (u ''td'') [] [] [Text (u ''lonely'')]])
           = [Tag (u ''td'') [] [] [Text (u ''lonely'')]]"
    by (simp add: find_all_def u_def)
  show ?thesis
    using a b vote_normalization[of "u ''T''"
        "[Tag (u ''tr'') [] [] [Tag (u ''td'') [] [] [Text (u ''lonely'')]]]" "u ''Ano''"]
      vote_normalization[of "u ''T''" "[]" emdash] vote_normalization[of "u ''T''" "[]" "[]"]
    by simp
qed

text \<open>
  The claim as written fails on a second cell whose text is the seven characters
  \<open>&mdash;\<close> (markup \<open>&amp;mdash;\<close>): it is neither the em dash nor empty, and the vote
  is 0.
\<close>

theorem vote_entity_text_counterexample:
  "parse_votes votes_page =
     Inr [\<lparr>v_title = u ''Volba A'', v_name = u ''Jan'', v_vote = 0\<rparr>,
          \<lparr>v_title = u ''Volba A'', v_name = u ''Eva'', v_vote = 1\<rparr>,
          \<lparr>v_title = u ''Volba A'', v_name = u ''Petr'', v_vote = 0\<rparr>]
   \<and> get_text_strip (Tag (u ''td'') [] [] [Text (u ''&mdash;'')]) = u ''&mdash;''
   \<and> u ''&mdash;'' \<noteq> emdash \<and> u ''&mdash;'' \<noteq> []"
proof -
  have "get_text_strip (Tag (u ''td'') [] [] [Text (u ''&mdash;'')]) = u ''&mdash;''"
    by (simp add: get_text_strip_def strip_def isspace_def u_def)
  moreover have "u ''&mdash;'' \<noteq> emdash \<and> u ''&mdash;'' \<noteq> []"
    by (simp add: u_def emdash_def)
  ultimately show ?thesis using votes_page_records by simp
qed

text \<open>
  C5. A vote page without a voter table does not give an empty sequence of records:
  \<open>soup.find\<close> returns \<open>None\<close>, \<open>None.find_all\<close> raises \<open>AttributeError\<close> and nothing
  catches it.
\<close>

theorem votes_without_table_raise:
  "parse_votes no_table_page = Inl AttributeError"
  by (simp add: parse_votes_def no_table_page_def find_tag_def u_def)

section \<open>Properties of the forum parser\<close>

lemma removeprefix_append: "removeprefix p (p @ s) = s"
  by (simp add: removeprefix_def)

lemma removeprefix_other: "\<not> prefix p s \<Longrightarrow> removeprefix p s = s"
  by (simp add: removeprefix_def)


text \<open>The forum parser gives one record per post container, and none without one.\<close>

lemma parse_forum_xml_length:
  "length (parse_forum_xml lib soup forum_id) = length (post_divs soup)"
  by (simp add: parse_forum_xml_def)

lemma post_set_title_other: "k \<noteq> ''title'' \<Longrightarrow> post_set_title pb pd k = pd k"
  by (simp add: post_set_title_def Let_def split: option.split)

lemma post_set_title_title:
  "title_link pb = Some l \<Longrightarrow>
   post_set_title pb pd ''title'' = Some (Str (removeprefix (u ''Re: '') (clean_text (get_text l))))"
  by (simp add: post_set_title_def Let_def)

lemma post_set_datetime_other: "k \<noteq> ''datetime'' \<Longrightarrow> post_set_datetime lib pb pd k = pd k"
  by (simp add: post_set_datetime_def split: option.split)

lemma post_set_content_other: "k \<noteq> ''content'' \<Longrightarrow> post_set_content pb pd k = pd k"
  by (simp add: post_set_content_def split: option.split)

lemma post_set_thanks_other:
  "post_set_thanks lib pb pd = Inr pd' \<Longrightarrow> k \<noteq> ''thanks_count'' \<Longrightarrow> k \<noteq> ''thanks_users'' \<Longrightarrow>
   pd' k = pd k"
  by (auto simp: post_set_thanks_def Let_def split: option.splits sum.splits if_splits prod.splits)

lemma post_thanks_defaults_other:
  "k \<noteq> ''thanks_count'' \<Longrightarrow> k \<noteq> ''thanks_users'' \<Longrightarrow> post_thanks_defaults pd k = pd k"
  by (simp add: post_thanks_defaults_def Let_def)

lemma extract_title:
  assumes "postbody_of post_div = Some pb" and "title_link pb = Some l"
  shows "extract_post_content lib post_div ''title''
         = Some (Str (removeprefix (u ''Re: '') (clean_text (get_text l))))"
proof -
  let ?pd1 = "post_set_content pb (post_set_datetime lib pb
                (post_set_title pb [''post_id'' \<mapsto> Str (post_id_of post_div)]))"
  have t: "?pd1 ''title'' = Some (Str (removeprefix (u ''Re: '') (clean_text (get_text l))))"
    using assms(2) by (simp add: post_set_content_other post_set_datetime_other post_set_title_title)
  show ?thesis
  proof (cases "post_set_thanks lib pb ?pd1")
    case (Inl e)
    with assms(1) t show ?thesis by (simp add: extract_post_content_def Let_def)
  next
    case (Inr pd2)
    then have "pd2 ''title'' = ?pd1 ''title''" by (rule post_set_thanks_other) simp_all
    with assms(1) t Inr show ?thesis
      by (simp add: extract_post_content_def Let_def post_thanks_defaults_other)
  qed
qed


lemma thanks_absent:
  "thanks_line pb = None \<Longrightarrow> post_set_thanks lib pb pd = Inr pd"
  by (simp add: post_set_thanks_def)



lemma thanks_defaults_count:
  "post_thanks_defaults pd ''thanks_count'' =
     (case pd ''thanks_count'' of None \<Rightarrow> Some (Num 0) | Some v \<Rightarrow> Some v)"
  by (simp add: post_thanks_defaults_def Let_def split: option.split)

lemma thanks_defaults_users:
  "post_thanks_defaults pd ''thanks_users'' =
     (case pd ''thanks_users'' of None \<Rightarrow> Some (Str []) | Some v \<Rightarrow> Some v)"
  by (simp add: post_thanks_defaults_def Let_def split: option.split)

lemma before_thanks_none:
  "post_set_content pb (post_set_datetime lib pb (post_set_title pb [''post_id'' \<mapsto> v]))
     ''thanks_count'' = None"
  "post_set_content pb (post_set_datetime lib pb (post_set_title pb [''post_id'' \<mapsto> v]))
     ''thanks_users'' = None"
  by (simp_all add: post_set_content_other post_set_datetime_other post_set_title_other)

lemma info_username_nan:
  "\<forall>k. pd k \<noteq> Some NaN \<Longrightarrow> info_username p pd k \<noteq> Some NaN"
  by (simp add: info_username_def Let_def split: option.split)

lemma info_rank_nan:
  "\<forall>k. pd k \<noteq> Some NaN \<Longrightarrow> info_rank p pd k \<noteq> Some NaN"
  by (simp add: info_rank_def split: option.split)

lemma info_post_count_nan:
  "\<forall>k. pd k \<noteq> Some NaN \<Longrightarrow> info_post_count p pd k \<noteq> Some NaN"
  by (simp add: info_post_count_def split: option.split)

lemma info_labelled_nan:
  "\<forall>k. pd k \<noteq> Some NaN \<Longrightarrow> info_labelled key cls label p pd k \<noteq> Some NaN"
  by (simp add: info_labelled_def Let_def split: option.split)

lemma info_thanks_nan:
  "\<forall>k. pd k \<noteq> Some NaN \<Longrightarrow> info_thanks lib key a p pd k \<noteq> Some NaN"
  by (simp add: info_thanks_def split: option.split)

lemma extract_user_info_nan: "extract_user_info lib post_div k \<noteq> Some NaN"
proof (cases "find_tag (\<lambda>n. tag_named (u ''dl'') n \<and> class_in [u ''postprofile''] n) post_div")
  case None
  then show ?thesis by (simp add: extract_user_info_def)
next
  case (Some p)
  have "\<forall>k. info_username p Map.empty k \<noteq> Some NaN"
    by (simp add: info_username_nan)
  then have "\<forall>k. info_rank p (info_username p Map.empty) k \<noteq> Some NaN"
    by (simp add: info_rank_nan)
  then have "\<forall>k. info_post_count p (info_rank p (info_username p Map.empty)) k \<noteq> Some NaN"
    by (simp add: info_post_count_nan)
  then show ?thesis using Some
    by (simp add: extract_user_info_def info_thanks_nan info_labelled_nan)
qed

lemma post_set_title_nan:
  "\<forall>k. pd k \<noteq> Some NaN \<Longrightarrow> post_set_title pb pd k \<noteq> Some NaN"
  by (simp add: post_set_title_def Let_def split: option.split)

lemma post_set_datetime_nan:
  "\<forall>k. pd k \<noteq> Some NaN \<Longrightarrow> post_set_datetime lib pb pd k \<noteq> Some NaN"
  by (simp add: post_set_datetime_def split: option.split)

lemma post_set_content_nan:
  "\<forall>k. pd k \<noteq> Some NaN \<Longrightarrow> post_set_content pb pd k \<noteq> Some NaN"
  by (simp add: post_set_content_def split: option.split)

lemma post_set_thanks_nan:
  "post_set_thanks lib pb pd = Inr pd' \<Longrightarrow> \<forall>k. pd k \<noteq> Some NaN \<Longrightarrow> pd' k \<noteq> Some NaN"
  by (auto simp: post_set_thanks_def Let_def split: option.splits sum.splits if_splits prod.splits)

lemma post_thanks_defaults_nan:
  "\<forall>k. pd k \<noteq> Some NaN \<Longrightarrow> post_thanks_defaults pd k \<noteq> Some NaN"
  by (simp add: post_thanks_defaults_def Let_def)

lemma extract_post_content_nan: "extract_post_content lib post_div k \<noteq> Some NaN"
proof (cases "postbody_of post_div")
  case None
  then show ?thesis by (simp add: extract_post_content_def)
next
  case (Some pb)
  let ?pd1 = "post_set_content pb (post_set_datetime lib pb
                (post_set_title pb [''post_id'' \<mapsto> Str (post_id_of post_div)]))"
  have 1: "\<forall>k. ?pd1 k \<noteq> Some NaN"
    by (simp add: post_set_content_nan post_set_datetime_nan post_set_title_nan)
  show ?thesis
  proof (cases "post_set_thanks lib pb ?pd1")
    case (Inl e)
    with Some 1 show ?thesis by (simp add: extract_post_content_def Let_def)
  next
    case (Inr pd2)
    with 1 have "\<forall>k. pd2 k \<noteq> Some NaN" by (blast dest: post_set_thanks_nan)
    with Some Inr show ?thesis
      by (simp add: extract_post_content_def Let_def post_thanks_defaults_nan)
  qed
qed

lemma post_record_nan: "post_record lib forum_id post_div k \<noteq> Some NaN"
  using extract_user_info_nan[of lib post_div k] extract_post_content_nan[of lib post_div k]
  by (auto simp: post_record_def map_add_def split: option.splits if_splits)

lemma to_excel_df_cell:
  "to_excel_cell (df_cell posts_data row col)
   = (case row col of Some v \<Rightarrow> to_excel_cell v | None \<Rightarrow> Str [])"
  by (simp add: df_cell_def split: option.split)

lemma to_excel_cell_id: "v \<noteq> NaN \<Longrightarrow> to_excel_cell v = v"
  by (cases v) simp_all

lemma written_cell:
  "(case post_record lib forum_id d col of Some v \<Rightarrow> to_excel_cell v | None \<Rightarrow> Str [])
   = (case post_record lib forum_id d col of Some v \<Rightarrow> v | None \<Rightarrow> Str [])"
  using post_record_nan[of lib forum_id d col]
  by (auto split: option.split intro: to_excel_cell_id)

lemma xlsx_of_forum:
  "create_xlsx_from_posts (parse_forum_xml lib soup forum_id) =
     (if post_divs soup = [] then Inr None
      else if 1048576 < length (post_divs soup) then Inl ValueError
      else if list_ex (\<lambda>post_div.
                 list_ex (\<lambda>col. bad_cell (case post_record lib forum_id post_div col of
                                            Some v \<Rightarrow> v | None \<Rightarrow> Str [])) columns)
                (post_divs soup)
      then Inl IllegalCharacterError
      else Inr (Some (map (\<lambda>post_div.
                        map (\<lambda>col. cut_cell (case post_record lib forum_id post_div col of
                                               Some v \<Rightarrow> v | None \<Rightarrow> Str [])) columns)
                      (post_divs soup))))"
  by (simp add: create_xlsx_from_posts_def parse_forum_xml_def to_excel_df_cell written_cell
      comp_def list_ex_iff Let_def)

lemma post_record_content:
  "extract_post_content lib post_div k = Some v \<Longrightarrow> post_record lib forum_id post_div k = Some v"
  by (simp add: post_record_def map_add_def)

text \<open>
  C6. The title of a post is the cleaned text of the link of the post body's first
  heading with one leading \<open>"Re: "\<close> removed: a cleaned title \<open>"Re: " + s\<close> becomes
  \<open>s\<close>, whatever \<open>s\<close> is (also when it starts with \<open>"Re: "\<close> again), a cleaned title
  that does not start with \<open>"Re: "\<close> is kept as it is, \<open>"Re: Hello"\<close> becomes
  \<open>"Hello"\<close> and \<open>"Re: Re: X"\<close> becomes \<open>"Re: X"\<close>.
\<close>

theorem title_prefix_stripped_once:
  "(postbody_of post_div = Some pb \<and> title_link pb = Some l \<longrightarrow>
      extract_post_content lib post_div ''title''
      = Some (Str (removeprefix (u ''Re: '') (clean_text (get_text l)))))
   \<and> removeprefix (u ''Re: '') (u ''Re: '' @ s) = s
   \<and> (\<not> prefix (u ''Re: '') t \<longrightarrow> removeprefix (u ''Re: '') t = t)
   \<and> removeprefix (u ''Re: '') (u ''Re: Hello'') = u ''Hello''
   \<and> removeprefix (u ''Re: '') (u ''Re: Re: X'') = u ''Re: X''"
proof -
  have "removeprefix (u ''Re: '') (u ''Re: Hello'') = u ''Hello''"
    and "removeprefix (u ''Re: '') (u ''Re: Re: X'') = u ''Re: X''"
    by (simp_all add: removeprefix_def u_def)
  then show ?thesis
    by (simp add: extract_title removeprefix_append removeprefix_other)
qed

theorem title_prefix_stripped_once_witness:
  "extract_post_content ascii_lib post_a ''title'' = Some (Str (u ''Re: X''))
   \<and> removeprefix (u ''Re: '') (u ''Say Re: no'') = u ''Say Re: no''"
proof -
  let ?l = "Tag (u ''a'') [] [] [Text (u '' Re: Re:  X '')]"
  have a: "postbody_of post_a = Some postbody_a"
    by (simp add: string_defs tree_defs fixture_defs)
  have b: "title_link postbody_a = Some ?l"
    by (simp add: string_defs tree_defs fixture_defs)
  have c: "removeprefix (u ''Re: '') (clean_text (get_text ?l)) = u ''Re: X''"
    by (simp add: string_defs)
  have d: "\<not> prefix (u ''Re: '') (u ''Say Re: no'')"
    by (simp add: string_defs)
  show ?thesis
    using a b c d
      title_prefix_stripped_once[where post_div = post_a and pb = postbody_a and l = ?l
        and lib = ascii_lib and t = "u ''Say Re: no''"]
    by simp
qed




text \<open>
  C7 (as amended). The sheet of a page with post containers has one data row per post
  container, and each row has the 16 columns in the fixed order, a column the post's
  record lacks written as the empty string; a string is cut at 32767 characters. No
  sheet is written for a page without post containers, and the writing raises for more
  than 1048576 rows and for a cell holding an illegal control character. For a post
  container with a post body and no "thanked by" line the record holds \<open>thanks_users\<close>
  as the empty string and \<open>thanks_count\<close> as 0.
\<close>

theorem forum_rows_schema:
  "create_xlsx_from_posts (parse_forum_xml lib soup forum_id) =
     (if post_divs soup = [] then Inr None
      else if 1048576 < length (post_divs soup) then Inl ValueError
      else if list_ex (\<lambda>post_div.
                 list_ex (\<lambda>col. bad_cell (case post_record lib forum_id post_div col of
                                            Some v \<Rightarrow> v | None \<Rightarrow> Str [])) columns)
                (post_divs soup)
      then Inl IllegalCharacterError
      else Inr (Some (map (\<lambda>post_div.
                        map (\<lambda>col. cut_cell (case post_record lib forum_id post_div col of
                                               Some v \<Rightarrow> v | None \<Rightarrow> Str [])) columns)
                      (post_divs soup))))
   \<and> columns =
       [''forum_id'', ''post_id'', ''title'', ''username'', ''user_id'', ''rank'', ''post_count'',
        ''registration_date'', ''profession'', ''location'', ''thanks_given'',
        ''thanks_received'', ''datetime'', ''content'', ''thanks_users'', ''thanks_count'']
   \<and> length columns = 16
   \<and> (postbody_of post_div = Some pb \<and> thanks_line pb = None \<longrightarrow>
        post_record lib forum_id post_div ''thanks_users'' = Some (Str [])
        \<and> post_record lib forum_id post_div ''thanks_count'' = Some (Num 0))"
proof -
  have "post_record lib forum_id post_div ''thanks_users'' = Some (Str [])
        \<and> post_record lib forum_id post_div ''thanks_count'' = Some (Num 0)"
    if "postbody_of post_div = Some pb" and "thanks_line pb = None"
  proof -
    have e: "extract_post_content lib post_div =
               post_thanks_defaults
                 (post_set_content pb (post_set_datetime lib pb
                    (post_set_title pb [''post_id'' \<mapsto> Str (post_id_of post_div)])))"
      using that by (simp add: extract_post_content_def Let_def thanks_absent)
    have "extract_post_content lib post_div ''thanks_users'' = Some (Str [])"
      and "extract_post_content lib post_div ''thanks_count'' = Some (Num 0)"
      by (simp_all add: e thanks_defaults_count thanks_defaults_users before_thanks_none)
    then show ?thesis by (simp add: post_record_content)
  qed
  moreover have "length columns = 16" by (simp add: columns_def)
  moreover note xlsx_of_forum[of lib soup forum_id] columns_def
  ultimately show ?thesis by blast
qed

theorem forum_rows_schema_witness:
  "create_xlsx_from_posts
     (parse_forum_xml ascii_lib (Tag (u ''[document]'') [] [] [post_c]) (u ''38314''))
   = Inr (Some [[Str (u ''38314''), Str (u ''103''), Str [], Str [], Str [], Str [], Str [],
                 Str [], Str [], Str [], Str [], Str [], Str [], Str (u ''No thanks here''),
                 Str [], Num 0]])
   \<and> create_xlsx_from_posts
       (parse_forum_xml ascii_lib (Tag (u ''[document]'') [] [] [post_bell]) (u ''38314''))
   = Inl IllegalCharacterError
   \<and> post_record ascii_lib (u ''38314'') post_c ''thanks_count'' = Some (Num 0)"
proof -
  let ?row = "\<lambda>post_div col. case post_record ascii_lib (u ''38314'') post_div col of
                              Some v \<Rightarrow> v | None \<Rightarrow> Str []"
  have a: "postbody_of post_c = Some postbody_c \<and> thanks_line postbody_c = None"
    by (simp add: string_defs tree_defs fixture_defs)
  have d: "post_divs (Tag (u ''[document]'') [] [] [post_c]) = [post_c]"
    and d': "post_divs (Tag (u ''[document]'') [] [] [post_bell]) = [post_bell]"
    by (simp_all add: string_defs tree_defs fixture_defs post_bell_def)
  have b: "map (?row post_c) columns
           = [Str (u ''38314''), Str (u ''103''), Str [], Str [], Str [], Str [], Str [],
              Str [], Str [], Str [], Str [], Str [], Str [], Str (u ''No thanks here''),
              Str [], Num 0]"
    by (simp add: string_defs tree_defs fixture_defs post_defs)
  have b': "map (?row post_bell) columns
            = [Str (u ''38314''), Str (u ''104''), Str [], Str [], Str [], Str [], Str [],
               Str [], Str [], Str [], Str [], Str [], Str [], Str (u ''bell '' @ [7]),
               Str [], Num 0]"
    by (simp add: string_defs tree_defs fixture_defs post_defs post_bell_def)
  have c: "\<not> list_ex bad_cell (map (?row post_c) columns)"
    and c': "list_ex bad_cell (map (?row post_bell) columns)"
    and c'': "map cut_cell (map (?row post_c) columns) = map (?row post_c) columns"
    unfolding b b' by (simp_all add: u_def illegal_character_def)
  have 1: "create_xlsx_from_posts
             (parse_forum_xml ascii_lib (Tag (u ''[document]'') [] [] [post_c]) (u ''38314''))
           = Inr (Some [map (?row post_c) columns])"
    using forum_rows_schema[where lib = ascii_lib and soup = "Tag (u ''[document]'') [] [] [post_c]"
        and forum_id = "u ''38314''"] d c c''
    by (simp add: list_ex_iff comp_def)
  have 2: "create_xlsx_from_posts
             (parse_forum_xml ascii_lib (Tag (u ''[document]'') [] [] [post_bell]) (u ''38314''))
           = Inl IllegalCharacterError"
    using forum_rows_schema[where lib = ascii_lib
        and soup = "Tag (u ''[document]'') [] [] [post_bell]" and forum_id = "u ''38314''"] d' c'
    by (simp add: list_ex_iff comp_def)
  have 3: "post_record ascii_lib (u ''38314'') post_c ''thanks_count'' = Some (Num 0)"
    using forum_rows_schema[where lib = ascii_lib and forum_id = "u ''38314''"
        and post_div = post_c and pb = postbody_c] a
    by simp
  from 1 2 3 b show ?thesis by simp
qed

text \<open>
  The claim as written fails on a post container without a post body: its row has the
  empty string, not 0, in the last column.
\<close>

theorem thanks_count_blank_counterexample:
  "create_xlsx_from_posts (parse_forum_xml ascii_lib bare_page (u ''38314''))
   = Inr (Some [[Str (u ''38314''), Str (u ''1''), Str [], Str [], Str [], Str [], Str [],
                 Str [], Str [], Str [], Str [], Str [], Str [], Str [], Str [], Str []]])
   \<and> Str [] \<noteq> Num 0"
proof -
  have "create_xlsx_from_posts (parse_forum_xml ascii_lib bare_page (u ''38314''))
   = Inr (Some [[Str (u ''38314''), Str (u ''1''), Str [], Str [], Str [], Str [], Str [],
                 Str [], Str [], Str [], Str [], Str [], Str [], Str [], Str [], Str []]])"
    by (simp add: string_defs tree_defs fixture_defs post_defs illegal_character_def)
  then show ?thesis by simp
qed

section \<open>Properties of the forum scraper\<close>

lemma error_page_none:
  assumes "w_server w (hist @ [GET url]) = Some response"
    and "indicator \<in> set error_indicators"
    and "sublist indicator (str_lower lib (r_text response))"
  shows "scrape_url lib w hist url = (None, hist @ [GET url])"
proof -
  have "list_ex (\<lambda>indicator. sublist indicator (str_lower lib (r_text response))) error_indicators"
    using assms(2,3) by (auto simp: list_ex_iff)
  with assms(1) show ?thesis by (simp add: scrape_url_def Let_def)
qed

lemma notice_usable:
  "fst (scrape_url ascii_lib (forum_world notice_text) []
          (u ''https://forum.pirati.cz/viewtopic.php?t=47593''))
   = Some \<lparr>pd_id = Some (u ''47593''), pd_start = Some (u ''0''),
            pd_url = u ''https://forum.pirati.cz/viewtopic.php?t=47593'',
            pd_raw_html = notice_text, pd_scraped_at = u ''2025-01-01 12:00:00'',
            pd_status_code = 200, pd_content_length = 148\<rparr>"
  by (simp add: scrape_defs lib_defs string_defs forum_world_def notice_text_def sublist_code
      Let_def)

lemma notice_has_marker: "sublist registration_required_en notice_text"
  by (simp add: scrape_defs string_defs notice_text_def sublist_code)

lemma missing_caught:
  "sublist (u ''topic not found'') (str_lower ascii_lib missing_text)
   \<and> u ''topic not found'' \<in> set error_indicators
   \<and> w_server (forum_world missing_text) ([] @ [GET (u ''https://forum.pirati.cz/viewtopic.php?t=1'')])
       = Some \<lparr>r_status_code = 200, r_text = missing_text, r_url = u ''https://forum.pirati.cz/viewtopic.php?t=1''\<rparr>"
  by (simp add: scrape_defs lib_defs string_defs forum_world_def missing_text_def sublist_code)

text \<open>
  C2 (as amended). \<open>scrape_url\<close> returns no page whenever the lower-cased body of the
  response holds one of the six phrases of \<open>error_indicators\<close>: topic does not exist,
  topic not found and page not found, each in English and in Czech. The scan is a
  substring test on the lower-cased body. The registration-required phrases of \<open>login\<close>
  are not among the six.
\<close>

theorem error_page_classification:
  "(w_server w (hist @ [GET url]) = Some response \<and> indicator \<in> set error_indicators
    \<and> sublist indicator (str_lower lib (r_text response)) \<longrightarrow>
      scrape_url lib w hist url = (None, hist @ [GET url]))
   \<and> error_indicators =
       [u ''this topic does not exist'', u ''toto t'' @ [233] @ u ''ma neexistuje'',
        u ''topic not found'', u ''t'' @ [233] @ u ''ma nenalezeno'',
        u ''page not found'', u ''str'' @ [225] @ u ''nka nenalezena'']
   \<and> registration_required_en \<notin> set error_indicators
   \<and> registration_required_cs \<notin> set error_indicators"
proof -
  have "registration_required_en \<notin> set error_indicators"
    and "registration_required_cs \<notin> set error_indicators"
    by (simp_all add: error_indicators_def registration_required_en_def
        registration_required_cs_def u_def)
  then show ?thesis
    by (auto simp: error_page_none) (simp add: error_indicators_def)
qed

theorem error_page_classification_witness:
  "scrape_url ascii_lib (forum_world missing_text) []
     (u ''https://forum.pirati.cz/viewtopic.php?t=1'')
   = (None, [GET (u ''https://forum.pirati.cz/viewtopic.php?t=1'')])"
  using missing_caught
    error_page_classification[where w = "forum_world missing_text" and hist = "[]"
      and url = "u ''https://forum.pirati.cz/viewtopic.php?t=1''" and lib = ascii_lib
      and indicator = "u ''topic not found''"
      and response = "\<lparr>r_status_code = 200, r_text = missing_text,
                        r_url = u ''https://forum.pirati.cz/viewtopic.php?t=1''\<rparr>"]
  by simp

text \<open>
  The claim as written fails on a page of status 200 and 148 characters that holds the
  English registration-required phrase and none of the six: \<open>scrape_url\<close> returns it
  as a page.
\<close>

theorem registration_page_usable_counterexample:
  "sublist registration_required_en notice_text
   \<and> fst (scrape_url ascii_lib (forum_world notice_text) []
            (u ''https://forum.pirati.cz/viewtopic.php?t=47593''))
     = Some \<lparr>pd_id = Some (u ''47593''), pd_start = Some (u ''0''),
              pd_url = u ''https://forum.pirati.cz/viewtopic.php?t=47593'',
              pd_raw_html = notice_text, pd_scraped_at = u ''2025-01-01 12:00:00'',
              pd_status_code = 200, pd_content_length = 148\<rparr>"
  using notice_has_marker notice_usable by simp

lemma first_nonempty: "xs \<noteq> [] \<Longrightarrow> first xs = Inr (hd xs)"
  by (cases xs) simp_all

lemma topic_info_parse_error:
  "urlparse lib url = Inl e \<Longrightarrow> extract_topic_info_from_url lib url = (None, None)"
  by (simp add: extract_topic_info_from_url_def)

lemma topic_info_values:
  assumes "urlparse lib url = Inr parsed"
    and "parse_qs lib (u_query parsed) (u ''t'') \<noteq> Some []"
    and "parse_qs lib (u_query parsed) (u ''start'') \<noteq> Some []"
  shows "extract_topic_info_from_url lib url =
           (map_option hd (parse_qs lib (u_query parsed) (u ''t'')),
            Some (case parse_qs lib (u_query parsed) (u ''start'') of
                    None \<Rightarrow> u ''0'' | Some vs \<Rightarrow> hd vs))"
  using assms
  by (auto simp: extract_topic_info_from_url_def Let_def first_nonempty split: option.splits)

lemma scrape_url_usable:
  assumes "w_server w (hist @ [GET url]) = Some response"
    and "r_status_code response = 200"
    and "100 \<le> length (strip (r_text response))"
    and "\<not> list_ex (\<lambda>indicator. sublist indicator (str_lower lib (r_text response)))
             error_indicators"
  shows "scrape_url lib w hist url =
           (Some \<lparr>pd_id = fst (extract_topic_info_from_url lib url),
                   pd_start = snd (extract_topic_info_from_url lib url), pd_url = url,
                   pd_raw_html = r_text response, pd_scraped_at = w_clock w (hist @ [GET url]),
                   pd_status_code = r_status_code response,
                   pd_content_length = length (r_text response)\<rparr>, hist @ [GET url])"
  using assms by (simp add: scrape_url_def Let_def split: prod.split)

text \<open>
  C4. For a URL that \<open>urlparse\<close> reads and whose query has a \<open>t\<close> parameter,
  \<open>extract_topic_info_from_url\<close> returns the first value of \<open>t\<close> as identifier,
  with the first value of \<open>start\<close> as offset, or \<open>"0"\<close> when the query has no
  \<open>start\<close>.
\<close>

theorem topic_info_extraction:
  assumes "urlparse lib url = Inr parsed"
    and "parse_qs lib (u_query parsed) (u ''t'') = Some (t # ts)"
  shows "(parse_qs lib (u_query parsed) (u ''start'') = None \<longrightarrow>
            extract_topic_info_from_url lib url = (Some t, Some (u ''0'')))
       \<and> (\<forall>s ss. parse_qs lib (u_query parsed) (u ''start'') = Some (s # ss) \<longrightarrow>
            extract_topic_info_from_url lib url = (Some t, Some s))"
  using assms by (simp add: topic_info_values)

theorem topic_info_extraction_witness:
  "extract_topic_info_from_url ascii_lib
     (u ''https://forum.pirati.cz/viewtopic.php?f=5&t=47593&start=20'')
   = (Some (u ''47593''), Some (u ''20''))
   \<and> extract_topic_info_from_url ascii_lib (u ''https://forum.pirati.cz/viewtopic.php?t=47593'')
   = (Some (u ''47593''), Some (u ''0''))"
proof -
  have a: "urlparse ascii_lib (u ''https://forum.pirati.cz/viewtopic.php?f=5&t=47593&start=20'')
           = Inr \<lparr>u_path = u ''/viewtopic.php'', u_query = u ''f=5&t=47593&start=20''\<rparr>"
    and a1: "parse_qs ascii_lib (u ''f=5&t=47593&start=20'') (u ''t'') = Some [u ''47593'']"
    and a2: "parse_qs ascii_lib (u ''f=5&t=47593&start=20'') (u ''start'') = Some [u ''20'']"
    and b: "urlparse ascii_lib (u ''https://forum.pirati.cz/viewtopic.php?t=47593'')
           = Inr \<lparr>u_path = u ''/viewtopic.php'', u_query = u ''t=47593''\<rparr>"
    and b1: "parse_qs ascii_lib (u ''t=47593'') (u ''t'') = Some [u ''47593'']"
    and b2: "parse_qs ascii_lib (u ''t=47593'') (u ''start'') = None"
    by (simp_all add: scrape_defs lib_defs string_defs)
  show ?thesis
    using topic_info_extraction[OF a, of "u ''47593''" "[]"]
      topic_info_extraction[OF b, of "u ''47593''" "[]"] a1 a2 b1 b2
    by simp
qed

lemma run_bare:
  "run ascii_lib (forum_world plain_text) (Some [u ''# topics'', bare_topic_url @ u '' ''])
         (u ''user'') (u ''secret'')
      = Inr \<lparr>rs_requests = [GET login_url, GET bare_topic_url],
             rs_files = [(u ''data/topic_None-0.xml'', plain_text)],
             rs_scraped = [(u ''data/topic_None-0.xml'',
                \<lparr>pd_id = None, pd_start = Some (u ''0''), pd_url = bare_topic_url,
                 pd_raw_html = plain_text, pd_scraped_at = u ''2025-01-01 12:00:00'',
                 pd_status_code = 200, pd_content_length = 162\<rparr>)]\<rparr>"
  by (simp add: scrape_defs lib_defs string_defs forum_world_def plain_text_def
      bare_topic_url_def sublist_code Let_def)

text \<open>
  C10 (as amended). \<open>extract_topic_info_from_url\<close> turns an exception of
  \<open>urlparse\<close> into \<open>(None, None)\<close>. For a URL whose query has no \<open>t\<close> it returns
  the identifier \<open>None\<close> with the first value of \<open>start\<close> as offset, \<open>"0"\<close> when the
  query has no \<open>start\<close> either; \<open>scrape_url\<close> still returns a page for a usable
  response, with \<open>None\<close> as its id, and \<open>save_page_as_html\<close> names its file
  \<open>topic_None-<offset>.xml\<close>.
\<close>

theorem topic_info_without_t:
  "(urlparse lib url = Inl e \<longrightarrow> extract_topic_info_from_url lib url = (None, None))
   \<and> (urlparse lib url = Inr parsed \<and> parse_qs lib (u_query parsed) (u ''t'') = None \<longrightarrow>
        (parse_qs lib (u_query parsed) (u ''start'') = None \<longrightarrow>
           extract_topic_info_from_url lib url = (None, Some (u ''0'')))
        \<and> (\<forall>s ss. parse_qs lib (u_query parsed) (u ''start'') = Some (s # ss) \<longrightarrow>
             extract_topic_info_from_url lib url = (None, Some s))
        \<and> (\<forall>response.
              w_server w (hist @ [GET url]) = Some response \<and> r_status_code response = 200
              \<and> 100 \<le> length (strip (r_text response))
              \<and> \<not> list_ex (\<lambda>indicator. sublist indicator (str_lower lib (r_text response)))
                    error_indicators \<longrightarrow>
              (\<exists>page. scrape_url lib w hist url = (Some page, hist @ [GET url])
                 \<and> pd_id page = None
                 \<and> fst (save_page_as_html lib page output_dir)
                     = path_join lib output_dir
                         (u ''topic_None-'' @ py_str (pd_start page) @ u ''.xml''))))"
proof -
  have "fst (extract_topic_info_from_url lib url) = None"
    if "urlparse lib url = Inr parsed" and "parse_qs lib (u_query parsed) (u ''t'') = None"
    using that
    by (simp add: extract_topic_info_from_url_def Let_def split: option.split sum.split)
  then show ?thesis
    by (auto simp: topic_info_parse_error topic_info_values scrape_url_usable
        save_page_as_html_def Let_def u_def)
qed

theorem topic_info_without_t_witness:
  "extract_topic_info_from_url ascii_lib bare_topic_url = (None, Some (u ''0''))
   \<and> run ascii_lib (forum_world plain_text) (Some [u ''# topics'', bare_topic_url @ u '' ''])
         (u ''user'') (u ''secret'')
      = Inr \<lparr>rs_requests = [GET login_url, GET bare_topic_url],
             rs_files = [(u ''data/topic_None-0.xml'', plain_text)],
             rs_scraped = [(u ''data/topic_None-0.xml'',
                \<lparr>pd_id = None, pd_start = Some (u ''0''), pd_url = bare_topic_url,
                 pd_raw_html = plain_text, pd_scraped_at = u ''2025-01-01 12:00:00'',
                 pd_status_code = 200, pd_content_length = 162\<rparr>)]\<rparr>"
proof -
  have a: "urlparse ascii_lib bare_topic_url = Inr \<lparr>u_path = u ''/viewtopic.php'', u_query = u ''f=5''\<rparr>"
    and b: "parse_qs ascii_lib (u ''f=5'') (u ''t'') = None"
    and c: "parse_qs ascii_lib (u ''f=5'') (u ''start'') = None"
    by (simp_all add: scrape_defs lib_defs string_defs bare_topic_url_def)
  from topic_info_without_t[where lib = ascii_lib and url = bare_topic_url
      and parsed = "\<lparr>u_path = u ''/viewtopic.php'', u_query = u ''f=5''\<rparr>"] a b c
  have "extract_topic_info_from_url ascii_lib bare_topic_url = (None, Some (u ''0''))"
    by simp
  then show ?thesis using run_bare by simp
qed

text \<open>
  The claim as written fails on a URL without \<open>t\<close> and with \<open>start=20\<close>: the
  offset returned is \<open>"20"\<close>, not \<open>"0"\<close>.
\<close>

theorem topic_info_start_kept_counterexample:
  "parse_qs ascii_lib (u ''f=5&start=20'') (u ''t'') = None
   \<and> extract_topic_info_from_url ascii_lib
       (u ''https://forum.pirati.cz/viewtopic.php?f=5&start=20'') = (None, Some (u ''20''))
   \<and> u ''20'' \<noteq> u ''0''"
  by (simp add: scrape_defs lib_defs string_defs)

lemma login_reaches_verification:
  assumes "w_server w (hist @ [GET login_url]) = Some response"
    and "\<not> raises_for_status response"
    and "find_tag (\<lambda>n. tag_named (u ''form'') n \<and> attr (u ''id'') n = Some (u ''kc-form-login''))
           (parse_html lib (r_text response)) = Some login_form"
    and "w_server w (hist @ [GET login_url,
            POST (urljoin lib (r_url response)
                    (case attr (u ''action'') login_form of Some a \<Rightarrow> a | None \<Rightarrow> []))
              (login_data username password login_form)]) = Some response2"
    and "\<not> raises_for_status response2"
  shows "login lib w hist username password =
           login_verify w (hist @ [GET login_url,
             POST (urljoin lib (r_url response)
                     (case attr (u ''action'') login_form of Some a \<Rightarrow> a | None \<Rightarrow> []))
               (login_data username password login_form)])"
  using assms by (simp add: login_def Let_def)

lemma run_after_login:
  assumes "login lib w [] username password = (Inr logged_in, hist)"
  shows "run lib w links_file username password =
           Inr (scrape_all lib w (u ''data'') (read_links_from_file links_file)
                  \<lparr>rs_requests = hist, rs_files = [], rs_scraped = []\<rparr>)"
  using assms by (simp add: run_def Let_def)

lemma login_examples:
  "login login_lib (login_world denied_text neutral_text) [] (u ''user'') (u ''secret'')
     = (Inr False, [GET login_url, login_post, GET test_url])"
  "login login_lib (login_world member_text neutral_text) [] (u ''user'') (u ''secret'')
     = (Inr True, [GET login_url, login_post, GET test_url])"
  "login login_lib (login_world neutral_text member_text_cs) [] (u ''user'') (u ''secret'')
     = (Inr True, [GET login_url, login_post, GET test_url, GET main_url])"
  "login login_lib (login_world neutral_text neutral_text) [] (u ''user'') (u ''secret'')
     = (Inr False, [GET login_url, login_post, GET test_url, GET main_url])"
  by (simp_all add: login_defs scrape_defs lib_defs string_defs tree_defs denied_text_def
      member_text_def member_text_cs_def neutral_text_def sublist_code Let_def)

text \<open>
  The verification steps of \<open>login\<close> when its requests are answered. After the
  credentials are posted, \<open>login\<close> requests the protected topic: a
  registration-required marker (English or Czech) in the answer gives \<open>False\<close>;
  otherwise a logout marker (English or Czech) gives \<open>True\<close>; with neither marker it
  requests the main page and returns whether a logout marker is there. When \<open>login\<close>
  returns \<open>False\<close>, \<open>run\<close> goes on to read the links and scrape them.
\<close>

theorem login_verification:
  "(w_server w (hist @ [GET test_url]) = Some test_response \<longrightarrow>
      ((sublist registration_required_en (r_text test_response)
        \<or> sublist registration_required_cs (r_text test_response)) \<longrightarrow>
         login_verify w hist = (Inr False, hist @ [GET test_url]))
      \<and> (\<not> sublist registration_required_en (r_text test_response)
         \<and> \<not> sublist registration_required_cs (r_text test_response)
         \<and> (sublist logout_en (r_text test_response) \<or> sublist logout_cs (r_text test_response)) \<longrightarrow>
         login_verify w hist = (Inr True, hist @ [GET test_url]))
      \<and> (\<not> sublist registration_required_en (r_text test_response)
         \<and> \<not> sublist registration_required_cs (r_text test_response)
         \<and> \<not> sublist logout_en (r_text test_response)
         \<and> \<not> sublist logout_cs (r_text test_response)
         \<and> w_server w (hist @ [GET test_url, GET main_url]) = Some main_response \<longrightarrow>
         login_verify w hist =
           (Inr (sublist logout_en (r_text main_response)
                 \<or> sublist logout_cs (r_text main_response)),
            hist @ [GET test_url, GET main_url])))
   \<and> (w_server w (hist @ [GET login_url]) = Some response \<and> \<not> raises_for_status response
      \<and> find_tag (\<lambda>n. tag_named (u ''form'') n \<and> attr (u ''id'') n = Some (u ''kc-form-login''))
           (parse_html lib (r_text response)) = Some login_form
      \<and> w_server w (hist @ [GET login_url,
            POST (urljoin lib (r_url response)
                    (case attr (u ''action'') login_form of Some a \<Rightarrow> a | None \<Rightarrow> []))
              (login_data username password login_form)]) = Some response2
      \<and> \<not> raises_for_status response2 \<longrightarrow>
      login lib w hist username password =
        login_verify w (hist @ [GET login_url,
          POST (urljoin lib (r_url response)
                  (case attr (u ''action'') login_form of Some a \<Rightarrow> a | None \<Rightarrow> []))
            (login_data username password login_form)]))
   \<and> (login lib w [] username password = (Inr False, hist') \<longrightarrow>
      run lib w links_file username password =
        Inr (scrape_all lib w (u ''data'') (read_links_from_file links_file)
               \<lparr>rs_requests = hist', rs_files = [], rs_scraped = []\<rparr>))"
  by (auto simp: login_verify_def Let_def login_reaches_verification intro: run_after_login)

theorem login_verification_witness:
  "login_verify (login_world denied_text neutral_text) [GET login_url, login_post]
     = (Inr False, [GET login_url, login_post, GET test_url])
   \<and> login login_lib (login_world denied_text neutral_text) [] (u ''user'') (u ''secret'')
     = (Inr False, [GET login_url, login_post, GET test_url])
   \<and> login login_lib (login_world member_text neutral_text) [] (u ''user'') (u ''secret'')
     = (Inr True, [GET login_url, login_post, GET test_url])
   \<and> login login_lib (login_world neutral_text member_text_cs) [] (u ''user'') (u ''secret'')
     = (Inr True, [GET login_url, login_post, GET test_url, GET main_url])
   \<and> login login_lib (login_world neutral_text neutral_text) [] (u ''user'') (u ''secret'')
     = (Inr False, [GET login_url, login_post, GET test_url, GET main_url])
   \<and> login ascii_lib (forum_world plain_text) [] (u ''user'') (u ''secret'')
     = (Inr False, [GET login_url])
   \<and> run ascii_lib (forum_world plain_text) (Some [u ''# topics'', bare_topic_url @ u '' ''])
         (u ''user'') (u ''secret'')
      = Inr (scrape_all ascii_lib (forum_world plain_text) (u ''data'') [bare_topic_url]
               \<lparr>rs_requests = [GET login_url], rs_files = [], rs_scraped = []\<rparr>)"
proof -
  have s: "w_server (login_world denied_text neutral_text)
             ([GET login_url, login_post] @ [GET test_url])
           = Some \<lparr>r_status_code = 200, r_text = denied_text, r_url = test_url\<rparr>"
    and d: "sublist registration_required_en denied_text"
    by (simp_all add: login_defs scrape_defs string_defs denied_text_def sublist_code)
  have f: "login ascii_lib (forum_world plain_text) [] (u ''user'') (u ''secret'')
           = (Inr False, [GET login_url])"
    and l: "read_links_from_file (Some [u ''# topics'', bare_topic_url @ u '' ''])
            = [bare_topic_url]"
    by (simp_all add: login_defs scrape_defs string_defs bare_topic_url_def sublist_code)
  from login_verification[where w = "login_world denied_text neutral_text"
      and hist = "[GET login_url, login_post]"
      and test_response = "\<lparr>r_status_code = 200, r_text = denied_text, r_url = test_url\<rparr>"] s d
  have 1: "login_verify (login_world denied_text neutral_text) [GET login_url, login_post]
     = (Inr False, [GET login_url, login_post, GET test_url])"
    by simp
  from login_verification[where lib = ascii_lib and w = "forum_world plain_text"
      and username = "u ''user''" and password = "u ''secret''" and hist' = "[GET login_url]"
      and links_file = "Some [u ''# topics'', bare_topic_url @ u '' '']"] f l
  have 2: "run ascii_lib (forum_world plain_text)
             (Some [u ''# topics'', bare_topic_url @ u '' '']) (u ''user'') (u ''secret'')
      = Inr (scrape_all ascii_lib (forum_world plain_text) (u ''data'') [bare_topic_url]
               \<lparr>rs_requests = [GET login_url], rs_files = [], rs_scraped = []\<rparr>)"
    by simp
  from 1 2 f login_examples show ?thesis by simp
qed

text \<open>
  C9. A login that fails does abort the run when it fails by a transport error of the
  verification request: the requests for the login page and for the credentials are
  inside \<open>try\<close> blocks that return \<open>False\<close>, the requests for the protected topic and
  for the main page are not, so \<open>login\<close> raises, and \<open>run\<close>, which calls it outside
  every \<open>try\<close>, raises too before any URL is read or scraped.
\<close>

theorem login_transport_failure_aborts_run:
  "login login_lib down_world [] (u ''user'') (u ''secret'')
     = (Inl RequestException, [GET login_url, login_post, GET test_url])
   \<and> run login_lib down_world (Some [u ''https://forum.pirati.cz/viewtopic.php?t=47593''])
         (u ''user'') (u ''secret'')
     = Inl RequestException"
  by (simp add: login_defs scrape_defs lib_defs string_defs tree_defs down_world_def
      sublist_code Let_def)

section \<open>Properties of the election-roll scraper\<close>











lemma page_url_examples:
  "page_url ascii_lib election_url 3 = election_url @ u ''?page=3''
   \<and> page_url ascii_lib (election_url @ u ''?size=50'') 3 = election_url @ u ''?size=50&page=3''
   \<and> page_url ascii_lib (election_url @ u ''?page=7&size=50'') 12
     = election_url @ u ''?page=12&size=50''"
  by (simp add: helios_defs lib_defs string_defs sublist_code Let_def)



end
